theory Spec2Isabelle
  imports Complex_Main "HOL-Library.Sublist"
begin

section \<open>Data model (models/MoodEnergyEntry)\<close>

text \<open>
  A JavaScript \<open>number\<close> is modelled as a real. In the functions of the first
  sections sums, quotients and products are the exact operations, which is the reading
  the statements about bounds, counts and data flow are made in. JavaScript computes in
  IEEE double precision, and near a rounding tie the value a blend returns differs from
  the exact one; the section on double arithmetic therefore gives the daily analysis a
  second time with every operation rounded to the nearest double, and the statement
  about the exact value returned is made there. Timestamps are integers (milliseconds),
  hours, days of the week and entry counts are naturals.

  The interfaces \<open>MoodEnergyEntry\<close> and \<open>PredictionData\<close> share the field
  \<open>timestamp\<close>, and \<open>DailyPattern\<close> and \<open>WeeklyPattern\<close> share their three
  statistics fields; each shared part is a parent record, so that every field keeps the
  name it has in the source. The optional fields of an entry (notes, predictedMood,
  predictedEnergy) are never read by the predictor and are left out.
\<close>

record Timestamped =
  timestamp :: int

record MoodEnergyEntry = Timestamped +
  entry_id :: string
  mood :: real
  energy :: real

record Pattern =
  averageMood :: real
  averageEnergy :: real
  entryCount :: nat

record DailyPattern = Pattern +
  hour :: nat

record WeeklyPattern = Pattern +
  dayOfWeek :: nat

record PredictionData = Timestamped +
  predictedMood :: real
  predictedEnergy :: real
  confidence :: real

text \<open>The object literals of the source, fields in the order they are written there.\<close>

definition mkEntry :: "string \<Rightarrow> int \<Rightarrow> real \<Rightarrow> real \<Rightarrow> MoodEnergyEntry" where
  "mkEntry i t m e = \<lparr>timestamp = t, entry_id = i, mood = m, energy = e\<rparr>"

definition mkDaily :: "nat \<Rightarrow> real \<Rightarrow> real \<Rightarrow> nat \<Rightarrow> DailyPattern" where
  "mkDaily h m e c = \<lparr>averageMood = m, averageEnergy = e, entryCount = c, hour = h\<rparr>"

definition mkWeekly :: "nat \<Rightarrow> real \<Rightarrow> real \<Rightarrow> nat \<Rightarrow> WeeklyPattern" where
  "mkWeekly d m e c = \<lparr>averageMood = m, averageEnergy = e, entryCount = c, dayOfWeek = d\<rparr>"

definition mkPrediction :: "int \<Rightarrow> real \<Rightarrow> real \<Rightarrow> real \<Rightarrow> PredictionData" where
  "mkPrediction t m e c =
     \<lparr>timestamp = t, predictedMood = m, predictedEnergy = e, confidence = c\<rparr>"

section \<open>Baseline tables (prediction/PatternPredictor.ts, lines 5-64)\<close>

definition DEFAULT_DAILY_PATTERNS :: "DailyPattern list" where
  "DEFAULT_DAILY_PATTERNS =
    [mkDaily 6 45 30 0, mkDaily 7 50 35 0, mkDaily 8 55 45 0,
     mkDaily 9 60 60 0, mkDaily 10 65 70 0, mkDaily 11 68 75 0,
     mkDaily 12 70 75 0, mkDaily 13 68 70 0,
     mkDaily 14 60 55 0, mkDaily 15 58 50 0,
     mkDaily 16 62 60 0, mkDaily 17 65 65 0, mkDaily 18 63 60 0,
     mkDaily 19 60 55 0, mkDaily 20 58 50 0, mkDaily 21 55 45 0,
     mkDaily 22 50 35 0, mkDaily 23 45 30 0, mkDaily 0 40 25 0,
     mkDaily 1 35 20 0, mkDaily 2 30 15 0, mkDaily 3 28 12 0,
     mkDaily 4 30 15 0, mkDaily 5 35 20 0]"

definition DEFAULT_WEEKLY_PATTERNS :: "WeeklyPattern list" where
  "DEFAULT_WEEKLY_PATTERNS =
    [mkWeekly 0 55 60 0, mkWeekly 1 50 65 0, mkWeekly 2 65 70 0, mkWeekly 3 68 72 0,
     mkWeekly 4 70 70 0, mkWeekly 5 72 68 0, mkWeekly 6 75 65 0]"

section \<open>The runtime and the store (storage/LocalStateManager.ts)\<close>

text \<open>
  What the predictor takes from its JavaScript runtime is a parameter of the model:
  \<open>getHours\<close> and \<open>getDay\<close> are \<open>new Date(t).getHours()\<close> and
  \<open>new Date(t).getDay()\<close> in the device's time zone, \<open>now\<close> is the value of
  \<open>Date.now()\<close>, \<open>random k\<close> is the value of the \<open>k\<close>-th call of
  \<open>Math.random()\<close>, and \<open>toLocaleTimeString\<close> formats a timestamp.
  \<open>AsyncStorage\<close> is a library outside the repository: \<open>getItemThrows key\<close> says
  that reading the key (\<open>getItem\<close>, then \<open>JSON.parse\<close>) throws, and
  \<open>setItemThrows key\<close> that writing it does.
\<close>

record runtime =
  getHours :: "int \<Rightarrow> nat"
  getDay :: "int \<Rightarrow> nat"
  now :: int
  random :: "nat \<Rightarrow> real"
  toLocaleTimeString :: "int \<Rightarrow> string"
  getItemThrows :: "string \<Rightarrow> bool"
  setItemThrows :: "string \<Rightarrow> bool"

text \<open>
  The key-value store holds one JSON document per key; a key that was never written is
  \<open>None\<close>. Every method of LocalStateManager catches what the store throws: a
  failed read logs and returns the empty list, a failed write logs and leaves the store
  as it was.
\<close>

record storage =
  ENTRIES :: "MoodEnergyEntry list option"
  DAILY_PATTERNS :: "DailyPattern list option"
  WEEKLY_PATTERNS :: "WeeklyPattern list option"

definition STORAGE_KEYS_ENTRIES :: string where
  "STORAGE_KEYS_ENTRIES = ''mood_energy_entries''"

definition STORAGE_KEYS_DAILY_PATTERNS :: string where
  "STORAGE_KEYS_DAILY_PATTERNS = ''daily_patterns''"

definition STORAGE_KEYS_WEEKLY_PATTERNS :: string where
  "STORAGE_KEYS_WEEKLY_PATTERNS = ''weekly_patterns''"

definition getEntries :: "runtime \<Rightarrow> storage \<Rightarrow> MoodEnergyEntry list" where
  "getEntries rt st =
     (if getItemThrows rt STORAGE_KEYS_ENTRIES then []
      else case ENTRIES st of None \<Rightarrow> [] | Some data \<Rightarrow> data)"

definition getDailyPatterns :: "runtime \<Rightarrow> storage \<Rightarrow> DailyPattern list" where
  "getDailyPatterns rt st =
     (if getItemThrows rt STORAGE_KEYS_DAILY_PATTERNS then []
      else case DAILY_PATTERNS st of None \<Rightarrow> [] | Some data \<Rightarrow> data)"

definition getWeeklyPatterns :: "runtime \<Rightarrow> storage \<Rightarrow> WeeklyPattern list" where
  "getWeeklyPatterns rt st =
     (if getItemThrows rt STORAGE_KEYS_WEEKLY_PATTERNS then []
      else case WEEKLY_PATTERNS st of None \<Rightarrow> [] | Some data \<Rightarrow> data)"

definition saveDailyPatterns :: "runtime \<Rightarrow> DailyPattern list \<Rightarrow> storage \<Rightarrow> storage" where
  "saveDailyPatterns rt patterns st =
     (if setItemThrows rt STORAGE_KEYS_DAILY_PATTERNS then st
      else st\<lparr>DAILY_PATTERNS := Some patterns\<rparr>)"

definition saveWeeklyPatterns :: "runtime \<Rightarrow> WeeklyPattern list \<Rightarrow> storage \<Rightarrow> storage" where
  "saveWeeklyPatterns rt patterns st =
     (if setItemThrows rt STORAGE_KEYS_WEEKLY_PATTERNS then st
      else st\<lparr>WEEKLY_PATTERNS := Some patterns\<rparr>)"

section \<open>JavaScript primitives\<close>

text \<open>\<open>Math.round\<close> rounds to the nearest integer, a half towards plus infinity.\<close>

definition Math_round :: "real \<Rightarrow> real" where
  "Math_round x = of_int \<lfloor>x + 1 / 2\<rfloor>"

text \<open>
  \<open>v || d\<close> on an optional number: \<open>d\<close> when \<open>v\<close> is undefined or zero.
\<close>

definition orNumber :: "real option \<Rightarrow> real \<Rightarrow> real" where
  "orNumber v d = (case v of None \<Rightarrow> d | Some x \<Rightarrow> if x = 0 then d else x)"

text \<open>\<open>values.reduce((a, b) => a + b, 0)\<close>.\<close>

definition reduceSum :: "real list \<Rightarrow> real" where
  "reduceSum values = foldl (\<lambda>a b. a + b) 0 values"

text \<open>
  \<open>Array.prototype.slice\<close>: a negative index counts from the end, and both indices
  are clamped to the array.
\<close>

definition relativeIndex :: "int \<Rightarrow> nat \<Rightarrow> nat" where
  "relativeIndex k len = (if k < 0 then nat (max (int len + k) 0) else min (nat k) len)"

definition sliceFrom :: "int \<Rightarrow> 'a list \<Rightarrow> 'a list" where
  "sliceFrom start xs = drop (relativeIndex start (length xs)) xs"

definition slice :: "int \<Rightarrow> int \<Rightarrow> 'a list \<Rightarrow> 'a list" where
  "slice start fin xs =
     (let from = relativeIndex start (length xs); to = relativeIndex fin (length xs)
      in take (to - from) (drop from xs))"

section \<open>PatternPredictor.analyzeDailyPatterns and analyzeWeeklyPatterns\<close>

text \<open>
  The dictionary \<open>patterns\<close> maps a bucket key to the pair of its \<open>mood\<close> and
  \<open>energy\<close> arrays. \<open>groupEntry\<close> is the body of the \<open>forEach\<close>: it creates the
  bucket when the key is new and pushes the entry's two values.
\<close>

type_synonym buckets = "nat \<rightharpoonup> real list \<times> real list"

definition groupEntry :: "(int \<Rightarrow> nat) \<Rightarrow> buckets \<Rightarrow> MoodEnergyEntry \<Rightarrow> buckets" where
  "groupEntry key patterns entry =
     (let k = key (timestamp entry);
          (moods, energies) = (case patterns k of None \<Rightarrow> ([], []) | Some b \<Rightarrow> b)
      in patterns(k \<mapsto> (moods @ [mood entry], energies @ [energy entry])))"

definition groupEntries :: "(int \<Rightarrow> nat) \<Rightarrow> MoodEnergyEntry list \<Rightarrow> buckets" where
  "groupEntries key entries = foldl (groupEntry key) Map.empty entries"

text \<open>The body of the loop over the hours (lines 84-113): the entry pushed for one hour.\<close>

definition dailyPatternAt :: "buckets \<Rightarrow> nat \<Rightarrow> DailyPattern" where
  "dailyPatternAt patterns h =
     (let defaultPattern = find (\<lambda>p. hour p = h) DEFAULT_DAILY_PATTERNS;
          fallback = (case defaultPattern of Some d \<Rightarrow> d | None \<Rightarrow> mkDaily h 50 50 0)
      in case patterns h of
           None \<Rightarrow> fallback
         | Some (moods, energies) \<Rightarrow>
             if length moods > 0 then
               (let avgMood = reduceSum moods / real (length moods);
                    avgEnergy = reduceSum energies / real (length energies);
                    dataWeight = min (real (length moods) / 10) 0.8;
                    defaultWeight = 1 - dataWeight;
                    blendedMood = Math_round
                      (avgMood * dataWeight
                        + orNumber (map_option averageMood defaultPattern) 50 * defaultWeight);
                    blendedEnergy = Math_round
                      (avgEnergy * dataWeight
                        + orNumber (map_option averageEnergy defaultPattern) 50 * defaultWeight)
                in mkDaily h blendedMood blendedEnergy (length moods))
             else fallback)"

function dailyLoop :: "buckets \<Rightarrow> nat \<Rightarrow> DailyPattern list \<Rightarrow> DailyPattern list" where
  "dailyLoop patterns h dailyPatterns =
     (if h < 24 then dailyLoop patterns (h + 1) (dailyPatterns @ [dailyPatternAt patterns h])
      else dailyPatterns)"
  by pat_completeness auto
termination
  by (relation "measure (\<lambda>(patterns, h, dailyPatterns). 24 - h)") auto

declare dailyLoop.simps [simp del]

definition analyzeDailyPatterns :: "runtime \<Rightarrow> storage \<Rightarrow> DailyPattern list \<times> storage" where
  "analyzeDailyPatterns rt st =
     (let entries = getEntries rt st;
          patterns = groupEntries (getHours rt) entries;
          dailyPatterns = dailyLoop patterns 0 []
      in (dailyPatterns, saveDailyPatterns rt dailyPatterns st))"

text \<open>The body of the loop over the days (lines 137-166).\<close>

definition weeklyPatternAt :: "buckets \<Rightarrow> nat \<Rightarrow> WeeklyPattern" where
  "weeklyPatternAt patterns day =
     (let defaultPattern = find (\<lambda>p. dayOfWeek p = day) DEFAULT_WEEKLY_PATTERNS;
          fallback = (case defaultPattern of Some d \<Rightarrow> d | None \<Rightarrow> mkWeekly day 60 60 0)
      in case patterns day of
           None \<Rightarrow> fallback
         | Some (moods, energies) \<Rightarrow>
             if length moods > 0 then
               (let avgMood = reduceSum moods / real (length moods);
                    avgEnergy = reduceSum energies / real (length energies);
                    dataWeight = min (real (length moods) / 15) 0.7;
                    defaultWeight = 1 - dataWeight;
                    blendedMood = Math_round
                      (avgMood * dataWeight
                        + orNumber (map_option averageMood defaultPattern) 60 * defaultWeight);
                    blendedEnergy = Math_round
                      (avgEnergy * dataWeight
                        + orNumber (map_option averageEnergy defaultPattern) 60 * defaultWeight)
                in mkWeekly day blendedMood blendedEnergy (length moods))
             else fallback)"

function weeklyLoop :: "buckets \<Rightarrow> nat \<Rightarrow> WeeklyPattern list \<Rightarrow> WeeklyPattern list" where
  "weeklyLoop patterns day weeklyPatterns =
     (if day < 7
      then weeklyLoop patterns (day + 1) (weeklyPatterns @ [weeklyPatternAt patterns day])
      else weeklyPatterns)"
  by pat_completeness auto
termination
  by (relation "measure (\<lambda>(patterns, day, weeklyPatterns). 7 - day)") auto

declare weeklyLoop.simps [simp del]

definition analyzeWeeklyPatterns :: "runtime \<Rightarrow> storage \<Rightarrow> WeeklyPattern list \<times> storage" where
  "analyzeWeeklyPatterns rt st =
     (let entries = getEntries rt st;
          patterns = groupEntries (getDay rt) entries;
          weeklyPatterns = weeklyLoop patterns 0 []
      in (weeklyPatterns, saveWeeklyPatterns rt weeklyPatterns st))"

section \<open>PatternPredictor.generatePredictions\<close>

text \<open>
  The source has no \<open>throw\<close>, and what the store throws is caught in
  LocalStateManager, so the promise of \<open>generatePredictions\<close> always resolves. Its
  outcome is nevertheless a sum, with the two failures the specification names on the
  left, so that "the call fails" is a statement about the model; no equation below
  produces \<open>Inl\<close>. The horizon \<open>hoursAhead\<close> is an integer, as every caller
  passes one (12).
\<close>

datatype error = InvalidInput | InvalidRange

definition calculateTrend :: "real list \<Rightarrow> real" where
  "calculateTrend values =
     (if length values < 2 then 0
      else
        (let recent = sliceFrom (- 3) values;
             older = slice (- 6) (- 3) values
         in if length older = 0 then 0
            else
              (let recentAvg = reduceSum recent / real (length recent);
                   olderAvg = reduceSum older / real (length older)
               in recentAvg - olderAvg)))"

text \<open>
  \<open>getTimeBasedVariation\<close> draws two random numbers; \<open>draws\<close> counts the calls of
  \<open>Math.random()\<close> made so far and is returned advanced by two.
\<close>

definition getTimeBasedVariation :: "runtime \<Rightarrow> nat \<Rightarrow> nat \<Rightarrow> int \<Rightarrow> (real \<times> real) \<times> nat" where
  "getTimeBasedVariation rt draws h hoursAhead =
     (let circadianMood = sin ((real h - 6) / 24 * 2 * pi) * 3;
          circadianEnergy = sin ((real h - 4) / 24 * 2 * pi) * 4;
          randomFactor = max 0.2 (1 - real_of_int hoursAhead * 0.05);
          moodNoise = (random rt draws - 0.5) * 4 * randomFactor;
          energyNoise = (random rt (draws + 1) - 0.5) * 5 * randomFactor
      in ((circadianMood + moodNoise, circadianEnergy + energyNoise), draws + 2))"

text \<open>
  The variable \<open>confidence\<close> of the loop body as it stands at line 238, before it is
  rounded: the base of lines 202-209, then the bump of line 222.
\<close>

definition confidenceBeforeRounding ::
  "DailyPattern \<Rightarrow> WeeklyPattern \<Rightarrow> MoodEnergyEntry list \<Rightarrow> real" where
  "confidenceBeforeRounding hourPattern dayPattern lastEntries =
     (let confidence =
            (if entryCount hourPattern > 0 \<or> entryCount dayPattern > 0 then
               (let hourConfidence = min (real (entryCount hourPattern) / 10) 1;
                    dayConfidence = min (real (entryCount dayPattern) / 15) 1
                in max 0.6 ((hourConfidence + dayConfidence) / 2))
             else 0.6)
      in if length lastEntries \<ge> 3 then min 1 (confidence + 0.1) else confidence)"

text \<open>
  The body of the loop of \<open>generatePredictions\<close> (lines 183-239) for the step \<open>i\<close>.
  The source updates \<open>predictedMood\<close> and \<open>predictedEnergy\<close> in place; here each
  stage has a name of its own: the baseline (\<open>baseMood\<close>), after the trend
  (\<open>trendMood\<close>), and after the variation and the clamp (\<open>predictedMood\<close>).
\<close>

definition predictionAt ::
  "runtime \<Rightarrow> DailyPattern list \<Rightarrow> WeeklyPattern list \<Rightarrow> MoodEnergyEntry list
     \<Rightarrow> nat \<Rightarrow> int \<Rightarrow> PredictionData \<times> nat" where
  "predictionAt rt dailyPatterns weeklyPatterns lastEntries draws i =
     (let futureTime = now rt + i * 60 * 60 * 1000;
          futureHour = getHours rt futureTime;
          futureDayOfWeek = getDay rt futureTime;
          hourPattern =
            (case find (\<lambda>p. hour p = futureHour) dailyPatterns of
               Some p \<Rightarrow> p
             | None \<Rightarrow>
                 (case find (\<lambda>p. hour p = futureHour) DEFAULT_DAILY_PATTERNS of
                    Some p \<Rightarrow> p
                  | None \<Rightarrow> mkDaily futureHour 50 50 0));
          dayPattern =
            (case find (\<lambda>p. dayOfWeek p = futureDayOfWeek) weeklyPatterns of
               Some p \<Rightarrow> p
             | None \<Rightarrow>
                 (case find (\<lambda>p. dayOfWeek p = futureDayOfWeek) DEFAULT_WEEKLY_PATTERNS of
                    Some p \<Rightarrow> p
                  | None \<Rightarrow> mkWeekly futureDayOfWeek 60 60 0));
          baseMood = (averageMood hourPattern + averageMood dayPattern) / 2;
          baseEnergy = (averageEnergy hourPattern + averageEnergy dayPattern) / 2;
          trendWeight = max 0.1 (0.4 - real_of_int i * 0.03);
          trendMood =
            (if length lastEntries \<ge> 3
             then baseMood + calculateTrend (map mood lastEntries) * trendWeight
             else baseMood);
          trendEnergy =
            (if length lastEntries \<ge> 3
             then baseEnergy + calculateTrend (map energy lastEntries) * trendWeight
             else baseEnergy);
          confidence = confidenceBeforeRounding hourPattern dayPattern lastEntries;
          (timeVariation, draws') = getTimeBasedVariation rt draws futureHour i;
          predictedMood = max 10 (min 90 (trendMood + fst timeVariation));
          predictedEnergy = max 10 (min 90 (trendEnergy + snd timeVariation))
      in (mkPrediction futureTime (Math_round predictedMood) (Math_round predictedEnergy)
            (Math_round (confidence * 100) / 100),
          draws'))"

function predictLoop ::
  "runtime \<Rightarrow> DailyPattern list \<Rightarrow> WeeklyPattern list \<Rightarrow> MoodEnergyEntry list
     \<Rightarrow> int \<Rightarrow> int \<Rightarrow> nat \<Rightarrow> PredictionData list \<Rightarrow> PredictionData list" where
  "predictLoop rt dailyPatterns weeklyPatterns lastEntries hoursAhead i draws predictions =
     (if i \<le> hoursAhead then
        (case predictionAt rt dailyPatterns weeklyPatterns lastEntries draws i of
           (p, draws') \<Rightarrow>
             predictLoop rt dailyPatterns weeklyPatterns lastEntries hoursAhead (i + 1) draws'
               (predictions @ [p]))
      else predictions)"
  by pat_completeness auto
termination
  by (relation "measure (\<lambda>(rt, dailyPatterns, weeklyPatterns, lastEntries, hoursAhead, i,
        draws, predictions). nat (hoursAhead + 1 - i))") auto

declare predictLoop.simps [simp del]

definition generatePredictions :: "runtime \<Rightarrow> storage \<Rightarrow> int \<Rightarrow> error + PredictionData list" where
  "generatePredictions rt st hoursAhead =
     (let dailyPatterns = getDailyPatterns rt st;
          weeklyPatterns = getWeeklyPatterns rt st;
          recentEntries = getEntries rt st;
          lastEntries = sliceFrom (- 10) recentEntries
      in Inr (predictLoop rt dailyPatterns weeklyPatterns lastEntries hoursAhead 1 0 []))"

section \<open>PatternPredictor.findEnergyDips\<close>

text \<open>
  \<open>threshold\<close> and \<open>dips\<close> are the constants of those names in the source (lines
  279-283); a returned object \<open>{time, energy}\<close> is a pair.
\<close>

definition threshold :: "PredictionData \<Rightarrow> real" where
  "threshold p = (if confidence p > 0.7 then 30 else 35)"

definition dips :: "PredictionData list \<Rightarrow> PredictionData list" where
  "dips predictions = filter (\<lambda>p. predictedEnergy p < threshold p) predictions"

definition findEnergyDips :: "runtime \<Rightarrow> storage \<Rightarrow> error + (string \<times> real) list" where
  "findEnergyDips rt st =
     (case generatePredictions rt st 12 of
        Inl e \<Rightarrow> Inl e
      | Inr predictions \<Rightarrow>
          Inr (map (\<lambda>dip. (toLocaleTimeString rt (timestamp dip), predictedEnergy dip))
                 (dips predictions)))"

section \<open>Double arithmetic, and the daily analysis in doubles\<close>

text \<open>
  \<open>fl x\<close> is the double nearest to \<open>x\<close>: \<open>x\<close> is scaled by the unit in the last
  place of its binade, so that the significand has 53 bits, and rounded to an integer,
  a tie to the even one (the IEEE default). The exponent is unbounded: overflow to
  infinity and the coarser spacing of subnormal numbers are not modelled, and do not
  arise in a blend of mood and energy values between 0 and 100. Each arithmetic
  operation of the source returns \<open>fl\<close> of the exact result; \<open>Math.min\<close> and
  \<open>Math.round\<close> are exact on doubles; the literal \<open>0.8\<close> is the double
  \<open>fl 0.8\<close>, and the integers that occur are doubles as they are.
\<close>

definition roundToEven :: "real \<Rightarrow> int" where
  "roundToEven y =
     (let f = \<lfloor>y\<rfloor>; r = y - of_int f
      in if r < 1 / 2 then f else if r > 1 / 2 then f + 1 else if even f then f else f + 1)"

definition fl :: "real \<Rightarrow> real" where
  "fl x =
     (if x = 0 then 0
      else
        (let e = \<lfloor>log 2 \<bar>x\<bar>\<rfloor>;
             ulp = 2 powi (e - 52)
         in of_int (roundToEven (x / ulp)) * ulp))"

text \<open>\<open>values.reduce((a, b) => a + b, 0)\<close>, every addition rounded.\<close>

definition reduceSum_double :: "real list \<Rightarrow> real" where
  "reduceSum_double values = foldl (\<lambda>a b. fl (a + b)) 0 values"

text \<open>
  Lines 84-113 and the loop and the function around them once more, the arithmetic of
  lines 88-100 in doubles; everything else is as in \<open>dailyPatternAt\<close>,
  \<open>dailyLoop\<close> and \<open>analyzeDailyPatterns\<close>.
\<close>

definition dailyPatternAt_double :: "buckets \<Rightarrow> nat \<Rightarrow> DailyPattern" where
  "dailyPatternAt_double patterns h =
     (let defaultPattern = find (\<lambda>p. hour p = h) DEFAULT_DAILY_PATTERNS;
          fallback = (case defaultPattern of Some d \<Rightarrow> d | None \<Rightarrow> mkDaily h 50 50 0)
      in case patterns h of
           None \<Rightarrow> fallback
         | Some (moods, energies) \<Rightarrow>
             if length moods > 0 then
               (let avgMood = fl (reduceSum_double moods / real (length moods));
                    avgEnergy = fl (reduceSum_double energies / real (length energies));
                    dataWeight = min (fl (real (length moods) / 10)) (fl 0.8);
                    defaultWeight = fl (1 - dataWeight);
                    blendedMood = Math_round
                      (fl (fl (avgMood * dataWeight)
                        + fl (orNumber (map_option averageMood defaultPattern) 50
                               * defaultWeight)));
                    blendedEnergy = Math_round
                      (fl (fl (avgEnergy * dataWeight)
                        + fl (orNumber (map_option averageEnergy defaultPattern) 50
                               * defaultWeight)))
                in mkDaily h blendedMood blendedEnergy (length moods))
             else fallback)"

function dailyLoop_double :: "buckets \<Rightarrow> nat \<Rightarrow> DailyPattern list \<Rightarrow> DailyPattern list" where
  "dailyLoop_double patterns h dailyPatterns =
     (if h < 24
      then dailyLoop_double patterns (h + 1) (dailyPatterns @ [dailyPatternAt_double patterns h])
      else dailyPatterns)"
  by pat_completeness auto
termination
  by (relation "measure (\<lambda>(patterns, h, dailyPatterns). 24 - h)") auto

declare dailyLoop_double.simps [simp del]

definition analyzeDailyPatterns_double :: "runtime \<Rightarrow> storage \<Rightarrow> DailyPattern list \<times> storage" where
  "analyzeDailyPatterns_double rt st =
     (let entries = getEntries rt st;
          patterns = groupEntries (getHours rt) entries;
          dailyPatterns = dailyLoop_double patterns 0 []
      in (dailyPatterns, saveDailyPatterns rt dailyPatterns st))"

text \<open>
  The blend as the amended claim C3 words it: \<open>Math.round\<close> of
  \<open>rawMean * dataWeight + baseline * (1 - dataWeight)\<close> with
  \<open>dataWeight = min (n / 10) 0.8\<close>, where the sum, the mean, \<open>n / 10\<close>,
  \<open>0.8\<close>, \<open>1 - dataWeight\<close>, the two products and their sum are each rounded
  to the nearest double.
\<close>

definition blend_double :: "real list \<Rightarrow> real \<Rightarrow> real" where
  "blend_double vals baseline =
     (let n = real (length vals);
          rawMean = fl (reduceSum_double vals / n);
          dataWeight = min (fl (n / 10)) (fl 0.8);
          defaultWeight = fl (1 - dataWeight)
      in Math_round (fl (fl (rawMean * dataWeight) + fl (baseline * defaultWeight))))"

section \<open>Example inputs and table checks\<close>

text \<open>
  A runtime in UTC (1 January 1970 was a Thursday, day 4), with \<open>Date.now() = 0\<close>,
  every random draw \<open>1/2\<close> and a store that never throws; stores holding a given entry list and nothing else; and the
  entry lists the examples below run on.
\<close>

definition utcRuntime :: runtime where
  "utcRuntime =
     \<lparr>getHours = (\<lambda>t. nat ((t div 3600000) mod 24)),
      getDay = (\<lambda>t. nat ((t div 86400000 + 4) mod 7)),
      now = 0,
      random = (\<lambda>k. 1 / 2),
      toLocaleTimeString = (\<lambda>t. []),
      getItemThrows = (\<lambda>key. False),
      setItemThrows = (\<lambda>key. False)\<rparr>"

definition storageOf :: "MoodEnergyEntry list \<Rightarrow> storage" where
  "storageOf es = \<lparr>ENTRIES = Some es, DAILY_PATTERNS = None, WEEKLY_PATTERNS = None\<rparr>"

definition emptyStorage :: storage where
  "emptyStorage = \<lparr>ENTRIES = None, DAILY_PATTERNS = None, WEEKLY_PATTERNS = None\<rparr>"

text \<open>Twenty samples at 09:00 with mood and energy 80.\<close>

definition scenarioEntries :: "MoodEnergyEntry list" where
  "scenarioEntries = replicate 20 (mkEntry ''s'' 32400000 80 80)"

text \<open>Ten samples at 16:00 (a Thursday): nine of mood 60 and one of mood 61, mean 60.1.\<close>

definition skewedEntries :: "MoodEnergyEntry list" where
  "skewedEntries = replicate 9 (mkEntry ''a'' 57600000 60 60) @ [mkEntry ''b'' 57600000 61 60]"

text \<open>
  Six samples at 09:00: five of mood 66 and one of mood 65, whose exact blend with the
  baseline 60 is the tie 63.5.
\<close>

definition tieEntries :: "MoodEnergyEntry list" where
  "tieEntries = replicate 5 (mkEntry ''t'' 32400000 66 66) @ [mkEntry ''u'' 32400000 65 65]"

text \<open>Two histories that differ before their last ten entries only.\<close>

definition headA :: "MoodEnergyEntry list" where
  "headA = mkEntry ''x'' 0 10 10 # replicate 10 (mkEntry ''r'' 3600000 50 50)"

definition headB :: "MoodEnergyEntry list" where
  "headB = mkEntry ''y'' 5 90 90 # mkEntry ''z'' 7 1 99 # replicate 10 (mkEntry ''r'' 3600000 50 50)"

text \<open>
  What the proofs need of a baseline table at one key: the key has an entry, the entry
  carries that key and the count zero, and its two averages are non-zero integers (so
  that \<open>|| 50\<close> and \<open>|| 60\<close> keep them).
\<close>

definition dailyDefaultOk :: "nat \<Rightarrow> bool" where
  "dailyDefaultOk h =
     (case find (\<lambda>p. hour p = h) DEFAULT_DAILY_PATTERNS of
        None \<Rightarrow> False
      | Some d \<Rightarrow> hour d = h \<and> entryCount d = 0 \<and> averageMood d \<noteq> 0 \<and> averageEnergy d \<noteq> 0
          \<and> Math_round (averageMood d) = averageMood d
          \<and> Math_round (averageEnergy d) = averageEnergy d)"

definition weeklyDefaultOk :: "nat \<Rightarrow> bool" where
  "weeklyDefaultOk day =
     (case find (\<lambda>p. dayOfWeek p = day) DEFAULT_WEEKLY_PATTERNS of
        None \<Rightarrow> False
      | Some d \<Rightarrow> dayOfWeek d = day \<and> entryCount d = 0 \<and> averageMood d \<noteq> 0
          \<and> averageEnergy d \<noteq> 0
          \<and> Math_round (averageMood d) = averageMood d
          \<and> Math_round (averageEnergy d) = averageEnergy d)"

section \<open>Lemmas: primitives and the baseline tables\<close>

lemma reduceSum_sum_list: "reduceSum xs = sum_list xs"
proof -
  have "foldl (\<lambda>a b. a + b) a xs = a + sum_list xs" for a :: real
    by (induction xs arbitrary: a) simp_all
  then show ?thesis by (simp add: reduceSum_def)
qed

lemma Math_round_round: "Math_round x = real_of_int (round x)"
  by (simp add: Math_round_def round_def)

lemma convex_bounds:
  fixes a b w :: real
  assumes "0 \<le> w" and "w \<le> 1"
  shows "min a b \<le> a * w + b * (1 - w)" and "a * w + b * (1 - w) \<le> max a b"
proof -
  have eq: "a * w + b * (1 - w) = b + w * (a - b)" by (simp add: algebra_simps)
  have eq': "a * w + b * (1 - w) = a + (1 - w) * (b - a)" by (simp add: algebra_simps)
  show "min a b \<le> a * w + b * (1 - w)"
  proof (cases "a \<le> b")
    case True
    then have "0 \<le> (1 - w) * (b - a)" using assms by simp
    then show ?thesis using True eq' by simp
  next
    case False
    then have "0 \<le> w * (a - b)" using assms by simp
    then show ?thesis using False eq by simp
  qed
  show "a * w + b * (1 - w) \<le> max a b"
  proof (cases "a \<le> b")
    case True
    then have "w * (a - b) \<le> 0" using assms by (simp add: mult_nonneg_nonpos)
    then show ?thesis using True eq by simp
  next
    case False
    then have "(1 - w) * (b - a) \<le> 0" using assms by (simp add: mult_nonneg_nonpos)
    then show ?thesis using False eq' by simp
  qed
qed

lemma Math_round_mono: "x \<le> y \<Longrightarrow> Math_round x \<le> Math_round y"
  by (simp add: Math_round_def floor_mono)

lemma blend_rounded_bounds:
  assumes "0 \<le> w" and "w \<le> 1"
  shows "Math_round (min a b) \<le> Math_round (a * w + b * (1 - w))
       \<and> Math_round (a * w + b * (1 - w)) \<le> Math_round (max a b)"
  using convex_bounds [OF assms, of a b] by (simp add: Math_round_mono)

lemma dailyWeight_range: "0 \<le> min (real n / 10) 0.8" "min (real n / 10) 0.8 \<le> (1::real)"
  by simp_all

lemma weeklyWeight_range: "0 \<le> min (real n / 15) 0.7" "min (real n / 15) 0.7 \<le> (1::real)"
  by simp_all

lemma Math_round_int: "Math_round (real_of_int n) = real_of_int n"
  by (simp add: Math_round_def)

lemma Math_round_clamp:
  assumes "real_of_int lo \<le> x" and "x \<le> real_of_int hi"
  shows "real_of_int lo \<le> Math_round x" and "Math_round x \<le> real_of_int hi"
  using Math_round_mono [OF assms(1)] Math_round_mono [OF assms(2)]
  by (simp_all add: Math_round_int)

lemma rounded_confidence_range:
  assumes "0.6 \<le> c" and "c \<le> 1"
  shows "0.6 \<le> Math_round (c * 100) / 100" and "Math_round (c * 100) / 100 \<le> 1"
    and "Math_round (Math_round (c * 100) / 100 * 100) / 100 = Math_round (c * 100) / 100"
proof -
  have "real_of_int 60 \<le> c * 100" "c * 100 \<le> real_of_int 100" using assms by simp_all
  from Math_round_clamp [OF this]
  show "0.6 \<le> Math_round (c * 100) / 100" and "Math_round (c * 100) / 100 \<le> 1"
    by simp_all
  show "Math_round (Math_round (c * 100) / 100 * 100) / 100 = Math_round (c * 100) / 100"
    by (simp add: Math_round_def)
qed

lemma sliceFrom_last_ten: "sliceFrom (- 10) xs = drop (length xs - 10) xs"
proof -
  have "relativeIndex (- 10) (length xs) = length xs - 10"
    by (simp add: relativeIndex_def)
  then show ?thesis by (simp add: sliceFrom_def)
qed

lemma upt24: "[0..<24] = [0,1,2,3,4,5,6,7,8,9,10,11,12,13,14,15,16,17,18,19,20,21,22,23]"
  by (simp add: upt_rec)

lemma upt7: "[0..<7] = [0,1,2,3,4,5,6]"
  by (simp add: upt_rec)

lemma dailyDefaultOk_all: "list_all dailyDefaultOk [0..<24]"
  unfolding upt24
  by (simp add: dailyDefaultOk_def DEFAULT_DAILY_PATTERNS_def mkDaily_def Math_round_def)

lemma dailyDefaultOk: "h < 24 \<Longrightarrow> dailyDefaultOk h"
  using dailyDefaultOk_all by (simp add: list_all_iff)

lemma weeklyDefaultOk_all: "list_all weeklyDefaultOk [0..<7]"
  unfolding upt7
  by (simp add: weeklyDefaultOk_def DEFAULT_WEEKLY_PATTERNS_def mkWeekly_def Math_round_def)

lemma weeklyDefaultOk: "d < 7 \<Longrightarrow> weeklyDefaultOk d"
  using weeklyDefaultOk_all by (simp add: list_all_iff)

lemma find_daily: "h < 24 \<Longrightarrow> \<exists>d. find (\<lambda>p. hour p = h) DEFAULT_DAILY_PATTERNS = Some d
    \<and> hour d = h \<and> entryCount d = 0 \<and> averageMood d \<noteq> 0 \<and> averageEnergy d \<noteq> 0
    \<and> Math_round (averageMood d) = averageMood d \<and> Math_round (averageEnergy d) = averageEnergy d"
  using dailyDefaultOk [of h] by (auto simp: dailyDefaultOk_def split: option.splits)

lemma find_weekly: "day < 7 \<Longrightarrow> \<exists>d. find (\<lambda>p. dayOfWeek p = day) DEFAULT_WEEKLY_PATTERNS = Some d
    \<and> dayOfWeek d = day \<and> entryCount d = 0 \<and> averageMood d \<noteq> 0 \<and> averageEnergy d \<noteq> 0
    \<and> Math_round (averageMood d) = averageMood d \<and> Math_round (averageEnergy d) = averageEnergy d"
  using weeklyDefaultOk [of day] by (auto simp: weeklyDefaultOk_def split: option.splits)

lemma find_daily_9: "find (\<lambda>p. hour p = 9) DEFAULT_DAILY_PATTERNS = Some (mkDaily 9 60 60 0)"
  by (simp add: DEFAULT_DAILY_PATTERNS_def mkDaily_def)

lemma find_daily_16: "find (\<lambda>p. hour p = 16) DEFAULT_DAILY_PATTERNS = Some (mkDaily 16 62 60 0)"
  by (simp add: DEFAULT_DAILY_PATTERNS_def mkDaily_def)

section \<open>Lemmas: double arithmetic\<close>

lemma floor_log2_eq:
  assumes "2 powi e \<le> x" and "x < 2 powi (e + 1)"
  shows "\<lfloor>log 2 x\<rfloor> = e"
proof -
  have pos: "0 < x" using assms(1) by (smt (verit) zero_less_power_int)
  have "(2::real) powr (of_int k) = 2 powi k" for k
    by (simp add: powr_real_of_int' power_int_def powr_int)
  from this [of e] this [of "e + 1"] show ?thesis using assms pos
    by (simp add: floor_log_eq_powr_iff add.commute)
qed

lemma fl_eval:
  assumes "2 powi e \<le> \<bar>x\<bar>" and "\<bar>x\<bar> < 2 powi (e + 1)"
  shows "fl x = of_int (roundToEven (x / 2 powi (e - 52))) * 2 powi (e - 52)"
proof -
  have "x \<noteq> 0" using assms(1) by (smt (verit) zero_less_power_int abs_zero)
  then show ?thesis using floor_log2_eq [OF assms] by (simp add: fl_def Let_def)
qed

lemma roundToEven_int: "roundToEven (of_int n) = n"
  by (simp add: roundToEven_def)

lemma fl_of_int:
  assumes "\<bar>n\<bar> < 2 ^ 53"
  shows "fl (of_int n) = of_int n"
proof (cases "n = 0")
  case True
  then show ?thesis by (simp add: fl_def)
next
  case False
  define e where "e = \<lfloor>log 2 \<bar>real_of_int n\<bar>\<rfloor>"
  have one: "1 \<le> \<bar>real_of_int n\<bar>" using False by (simp flip: of_int_abs)
  have lt: "\<bar>real_of_int n\<bar> < 2 ^ 53" using assms by (simp flip: of_int_abs)
  have "0 \<le> log 2 \<bar>real_of_int n\<bar>" using one by simp
  then have e0: "0 \<le> e" by (simp add: e_def)
  have "log 2 \<bar>real_of_int n\<bar> < 53" using one lt by (subst log_less_iff) simp_all
  then have e52: "e \<le> 52" unfolding e_def by linarith
  define k where "k = nat (52 - e)"
  have ek: "e - 52 = - int k" using e52 by (simp add: k_def)
  have ulp: "(2::real) powi (e - 52) = inverse (2 ^ k)"
    unfolding ek by (simp add: power_int_minus)
  have q: "real_of_int n / 2 powi (e - 52) = of_int (n * 2 ^ k)"
    by (simp add: ulp field_simps)
  have "fl (of_int n) = of_int (roundToEven (of_int n / 2 powi (e - 52))) * 2 powi (e - 52)"
    using False by (simp add: fl_def Let_def e_def)
  also have "\<dots> = of_int (n * 2 ^ k) * 2 powi (e - 52)"
    by (simp only: q roundToEven_int)
  also have "\<dots> = of_int n" by (simp add: ulp)
  finally show ?thesis .
qed

lemma fl_numeral [simp]: "numeral w < (2::int) ^ 53 \<Longrightarrow> fl (numeral w) = numeral w"
  using fl_of_int [of "numeral w"] by simp

lemma fl_of_nat: "n < 2 ^ 53 \<Longrightarrow> fl (real n) = real n"
  using fl_of_int [of "int n"] by simp

lemma reduceSum_double_const:
  assumes "\<forall>x\<in>set xs. x = real c" and "c * length xs < 2 ^ 53"
  shows "reduceSum_double xs = real (c * length xs)"
  using assms
proof (induction xs rule: rev_induct)
  case Nil
  show ?case by (simp add: reduceSum_double_def)
next
  case (snoc x xs)
  have "c * length xs \<le> c * length (xs @ [x])" by simp
  with snoc.prems have "c * length xs < 2 ^ 53" by linarith
  with snoc have ih: "reduceSum_double xs = real (c * length xs)" by simp
  have "reduceSum_double (xs @ [x]) = fl (reduceSum_double xs + x)"
    by (simp add: reduceSum_double_def)
  also have "\<dots> = fl (real (c * length (xs @ [x])))"
    using snoc.prems ih by (simp add: algebra_simps)
  also have "\<dots> = real (c * length (xs @ [x]))"
    using snoc.prems(2) by (rule fl_of_nat)
  finally show ?case .
qed

lemma tie_sum: "reduceSum_double [66, 66, 66, 66, 66, 65] = 395"
  by (simp add: reduceSum_double_def)

lemma tie_blend: "blend_double [66, 66, 66, 66, 66, 65] 60 = 63"
proof -
  have n: "real (length [66::real, 66, 66, 66, 66, 65]) = 6" by simp
  have a: "fl (395 / 6) = 4632608991696213 / 70368744177664"
    using fl_eval [of 6 "395 / 6"] by (simp add: roundToEven_def)
  have w: "fl (6 / 10) = 5404319552844595 / 9007199254740992"
    using fl_eval [of "- 1" "6 / 10"] by (simp add: roundToEven_def)
  have w8: "fl 0.8 = 3602879701896397 / 4503599627370496"
    using fl_eval [of "- 1" "0.8"] by (simp add: roundToEven_def)
  have m: "min (5404319552844595 / 9007199254740992) (3602879701896397 / 4503599627370496)
      = (5404319552844595 / 9007199254740992 :: real)"
    by simp
  have dw: "fl (1 - 5404319552844595 / 9007199254740992) = 3602879701896397 / 9007199254740992"
    using fl_eval [of "- 2" "1 - 5404319552844595 / 9007199254740992"]
    by (simp add: roundToEven_def)
  have p1: "fl (4632608991696213 / 70368744177664 * (5404319552844595 / 9007199254740992))
      = 5559130790035455 / 140737488355328"
    using fl_eval [of 5 "4632608991696213 / 70368744177664
        * (5404319552844595 / 9007199254740992)"]
    by (simp add: roundToEven_def)
  have p2: "fl (60 * (3602879701896397 / 9007199254740992)) = 24"
    using fl_eval [of 4 "60 * (3602879701896397 / 9007199254740992)"]
    by (simp add: roundToEven_def)
  have v: "fl (5559130790035455 / 140737488355328 + 24) = 8936830510563327 / 140737488355328"
    using fl_eval [of 5 "5559130790035455 / 140737488355328 + 24"]
    by (simp add: roundToEven_def)
  have r: "Math_round (8936830510563327 / 140737488355328) = 63"
    by (simp add: Math_round_def)
  show ?thesis
    by (simp only: blend_double_def Let_def tie_sum n a w w8 m dw p1 p2 v r)
qed

lemma scenario_blend:
  assumes "length xs = 20" and "\<forall>x\<in>set xs. x = 80"
  shows "blend_double xs 60 = 76"
proof -
  have s: "reduceSum_double xs = 1600"
    using reduceSum_double_const [of xs 80] assms by simp
  have n: "real (length xs) = 20" using assms by simp
  have a: "fl (1600 / 20) = 80" by simp
  have w: "fl (20 / 10) = 2" by simp
  have w8: "fl 0.8 = 3602879701896397 / 4503599627370496"
    using fl_eval [of "- 1" "0.8"] by (simp add: roundToEven_def)
  have m: "min 2 (3602879701896397 / 4503599627370496)
      = (3602879701896397 / 4503599627370496 :: real)"
    by simp
  have dw: "fl (1 - 3602879701896397 / 4503599627370496) = 900719925474099 / 4503599627370496"
    using fl_eval [of "- 3" "1 - 3602879701896397 / 4503599627370496"]
    by (simp add: roundToEven_def)
  have p1: "fl (80 * (3602879701896397 / 4503599627370496)) = 64"
    using fl_eval [of 6 "80 * (3602879701896397 / 4503599627370496)"]
    by (simp add: roundToEven_def)
  have p2: "fl (60 * (900719925474099 / 4503599627370496)) = 3377699720527871 / 281474976710656"
    using fl_eval [of 3 "60 * (900719925474099 / 4503599627370496)"]
    by (simp add: roundToEven_def)
  have v: "fl (64 + 3377699720527871 / 281474976710656) = 76"
    using fl_eval [of 6 "64 + 3377699720527871 / 281474976710656"]
    by (simp add: roundToEven_def)
  have r: "Math_round 76 = 76"
    by (simp add: Math_round_def)
  show ?thesis
    by (simp only: blend_double_def Let_def s n a w w8 m dw p1 p2 v r)
qed

section \<open>Lemmas: grouping and the two analysis loops\<close>

lemma groupEntry_lookup:
  "groupEntry key m e k =
     (if key (timestamp e) = k
      then Some (fst (case m k of None \<Rightarrow> ([], []) | Some p \<Rightarrow> p) @ [mood e],
                 snd (case m k of None \<Rightarrow> ([], []) | Some p \<Rightarrow> p) @ [energy e])
      else m k)"
  by (simp add: groupEntry_def Let_def split: option.splits prod.splits)

lemma foldl_groupEntry:
  "foldl (groupEntry key) m entries k =
     (let b = filter (\<lambda>e. key (timestamp e) = k) entries
      in if b = [] then m k
         else Some (fst (case m k of None \<Rightarrow> ([], []) | Some p \<Rightarrow> p) @ map mood b,
                    snd (case m k of None \<Rightarrow> ([], []) | Some p \<Rightarrow> p) @ map energy b))"
proof (induction entries arbitrary: m)
  case Nil
  show ?case by simp
next
  case (Cons e es)
  have "foldl (groupEntry key) m (e # es) k = foldl (groupEntry key) (groupEntry key m e) es k"
    by simp
  also have "\<dots> =
     (let b = filter (\<lambda>e. key (timestamp e) = k) es
      in if b = [] then groupEntry key m e k
         else Some (fst (case groupEntry key m e k of None \<Rightarrow> ([], []) | Some p \<Rightarrow> p) @ map mood b,
                    snd (case groupEntry key m e k of None \<Rightarrow> ([], []) | Some p \<Rightarrow> p) @ map energy b))"
    by (rule Cons.IH)
  also have "\<dots> =
     (let b = filter (\<lambda>e. key (timestamp e) = k) (e # es)
      in if b = [] then m k
         else Some (fst (case m k of None \<Rightarrow> ([], []) | Some p \<Rightarrow> p) @ map mood b,
                    snd (case m k of None \<Rightarrow> ([], []) | Some p \<Rightarrow> p) @ map energy b))"
    by (simp add: groupEntry_lookup Let_def)
  finally show ?case .
qed

lemma groupEntries_lookup:
  "groupEntries key entries k =
     (if filter (\<lambda>e. key (timestamp e) = k) entries = [] then None
      else Some (map mood (filter (\<lambda>e. key (timestamp e) = k) entries),
                 map energy (filter (\<lambda>e. key (timestamp e) = k) entries)))"
  by (simp add: groupEntries_def foldl_groupEntry Let_def)

lemma dailyLoop_eq:
  "dailyLoop patterns h acc = acc @ map (dailyPatternAt patterns) [h..<24]"
proof (induction patterns h acc rule: dailyLoop.induct)
  case (1 patterns h acc)
  show ?case
  proof (cases "h < 24")
    case True
    then show ?thesis
      using "1.IH" by (subst dailyLoop.simps) (simp add: upt_conv_Cons)
  next
    case False
    then show ?thesis by (subst dailyLoop.simps) simp
  qed
qed

lemma weeklyLoop_eq:
  "weeklyLoop patterns d acc = acc @ map (weeklyPatternAt patterns) [d..<7]"
proof (induction patterns d acc rule: weeklyLoop.induct)
  case (1 patterns d acc)
  show ?case
  proof (cases "d < 7")
    case True
    then show ?thesis
      using "1.IH" by (subst weeklyLoop.simps) (simp add: upt_conv_Cons)
  next
    case False
    then show ?thesis by (subst weeklyLoop.simps) simp
  qed
qed

lemma analyzeDaily_fst:
  "fst (analyzeDailyPatterns rt st)
     = map (dailyPatternAt (groupEntries (getHours rt) (getEntries rt st))) [0..<24]"
  by (simp add: analyzeDailyPatterns_def Let_def dailyLoop_eq del: upt_rec_numeral)

lemma analyzeWeekly_fst:
  "fst (analyzeWeeklyPatterns rt st)
     = map (weeklyPatternAt (groupEntries (getDay rt) (getEntries rt st))) [0..<7]"
  by (simp add: analyzeWeeklyPatterns_def Let_def weeklyLoop_eq del: upt_rec_numeral)

lemma analyzeDaily_nth:
  "h < 24 \<Longrightarrow> fst (analyzeDailyPatterns rt st) ! h
     = dailyPatternAt (groupEntries (getHours rt) (getEntries rt st)) h"
  by (simp add: analyzeDaily_fst del: upt_rec_numeral)

lemma analyzeWeekly_nth:
  "d < 7 \<Longrightarrow> fst (analyzeWeeklyPatterns rt st) ! d
     = weeklyPatternAt (groupEntries (getDay rt) (getEntries rt st)) d"
  by (simp add: analyzeWeekly_fst del: upt_rec_numeral)

lemma analyzeDaily_length: "length (fst (analyzeDailyPatterns rt st)) = 24"
  by (simp add: analyzeDaily_fst del: upt_rec_numeral)

lemma analyzeWeekly_length: "length (fst (analyzeWeeklyPatterns rt st)) = 7"
  by (simp add: analyzeWeekly_fst del: upt_rec_numeral)

lemma dailyPatternAt_empty:
  assumes "filter (\<lambda>e. key (timestamp e) = h) es = []"
    and "find (\<lambda>p. hour p = h) DEFAULT_DAILY_PATTERNS = Some d"
  shows "dailyPatternAt (groupEntries key es) h = d"
  using assms by (simp add: dailyPatternAt_def groupEntries_lookup)

lemma dailyPatternAt_bucket:
  assumes "filter (\<lambda>e. key (timestamp e) = h) es = b" and "b \<noteq> []"
    and "find (\<lambda>p. hour p = h) DEFAULT_DAILY_PATTERNS = Some d"
    and "averageMood d \<noteq> 0" and "averageEnergy d \<noteq> 0"
  shows "dailyPatternAt (groupEntries key es) h =
     mkDaily h
       (Math_round (sum_list (map mood b) / real (length b) * min (real (length b) / 10) 0.8
          + averageMood d * (1 - min (real (length b) / 10) 0.8)))
       (Math_round (sum_list (map energy b) / real (length b) * min (real (length b) / 10) 0.8
          + averageEnergy d * (1 - min (real (length b) / 10) 0.8)))
       (length b)"
  using assms
  by (simp add: dailyPatternAt_def groupEntries_lookup reduceSum_sum_list orNumber_def Let_def)

lemma weeklyPatternAt_empty:
  assumes "filter (\<lambda>e. key (timestamp e) = day) es = []"
    and "find (\<lambda>p. dayOfWeek p = day) DEFAULT_WEEKLY_PATTERNS = Some d"
  shows "weeklyPatternAt (groupEntries key es) day = d"
  using assms by (simp add: weeklyPatternAt_def groupEntries_lookup)

lemma weeklyPatternAt_bucket:
  assumes "filter (\<lambda>e. key (timestamp e) = day) es = b" and "b \<noteq> []"
    and "find (\<lambda>p. dayOfWeek p = day) DEFAULT_WEEKLY_PATTERNS = Some d"
    and "averageMood d \<noteq> 0" and "averageEnergy d \<noteq> 0"
  shows "weeklyPatternAt (groupEntries key es) day =
     mkWeekly day
       (Math_round (sum_list (map mood b) / real (length b) * min (real (length b) / 15) 0.7
          + averageMood d * (1 - min (real (length b) / 15) 0.7)))
       (Math_round (sum_list (map energy b) / real (length b) * min (real (length b) / 15) 0.7
          + averageEnergy d * (1 - min (real (length b) / 15) 0.7)))
       (length b)"
  using assms
  by (simp add: weeklyPatternAt_def groupEntries_lookup reduceSum_sum_list orNumber_def Let_def)

lemma hour_dailyPatternAt: "h < 24 \<Longrightarrow> hour (dailyPatternAt patterns h) = h"
  using dailyDefaultOk [of h]
  by (auto simp: dailyPatternAt_def dailyDefaultOk_def mkDaily_def Let_def
      split: option.splits prod.splits)

lemma dayOfWeek_weeklyPatternAt: "d < 7 \<Longrightarrow> dayOfWeek (weeklyPatternAt patterns d) = d"
  using weeklyDefaultOk [of d]
  by (auto simp: weeklyPatternAt_def weeklyDefaultOk_def mkWeekly_def Let_def
      split: option.splits prod.splits)

lemma utc_hours_9: "getHours utcRuntime 32400000 = 9"
  by (simp add: utcRuntime_def)

lemma utc_hours_16: "getHours utcRuntime 57600000 = 16"
  by (simp add: utcRuntime_def)

lemma utc_day_16: "getDay utcRuntime 57600000 = 4"
  by (simp add: utcRuntime_def)

lemma getEntries_storageOf: "getEntries utcRuntime (storageOf es) = es"
  by (simp add: getEntries_def storageOf_def utcRuntime_def)

lemma skewed_bucket:
  "filter (\<lambda>e. getHours utcRuntime (timestamp e) = 16) skewedEntries = skewedEntries"
  by (simp add: skewedEntries_def mkEntry_def utc_hours_16)

lemma skewed_sum: "sum_list (map mood skewedEntries) = 601" "length skewedEntries = 10"
  "sum_list (map energy skewedEntries) = 600" "skewedEntries \<noteq> []"
  by (simp_all add: skewedEntries_def mkEntry_def sum_list_replicate)

lemma skewed_result:
  "fst (analyzeDailyPatterns utcRuntime (storageOf skewedEntries)) ! 16 = mkDaily 16 60 60 10"
proof -
  have "fst (analyzeDailyPatterns utcRuntime (storageOf skewedEntries)) ! 16
      = dailyPatternAt (groupEntries (getHours utcRuntime) skewedEntries) 16"
    by (simp add: analyzeDaily_nth getEntries_storageOf)
  also have "\<dots> = mkDaily 16 60 60 10"
    using dailyPatternAt_bucket [OF skewed_bucket skewed_sum(4) find_daily_16]
    by (simp add: skewed_sum mkDaily_def Math_round_def)
  finally show ?thesis .
qed

lemma dailyLoop_double_eq:
  "dailyLoop_double patterns h acc = acc @ map (dailyPatternAt_double patterns) [h..<24]"
proof (induction patterns h acc rule: dailyLoop_double.induct)
  case (1 patterns h acc)
  show ?case
  proof (cases "h < 24")
    case True
    then show ?thesis
      using "1.IH" by (subst dailyLoop_double.simps) (simp add: upt_conv_Cons)
  next
    case False
    then show ?thesis by (subst dailyLoop_double.simps) simp
  qed
qed

lemma analyzeDaily_double_nth:
  "h < 24 \<Longrightarrow> fst (analyzeDailyPatterns_double rt st) ! h
     = dailyPatternAt_double (groupEntries (getHours rt) (getEntries rt st)) h"
  by (simp add: analyzeDailyPatterns_double_def Let_def dailyLoop_double_eq del: upt_rec_numeral)

lemma dailyPatternAt_double_bucket:
  assumes "filter (\<lambda>e. key (timestamp e) = h) es = b" and "b \<noteq> []"
    and "find (\<lambda>p. hour p = h) DEFAULT_DAILY_PATTERNS = Some d"
    and "averageMood d \<noteq> 0" and "averageEnergy d \<noteq> 0"
  shows "dailyPatternAt_double (groupEntries key es) h =
     mkDaily h (blend_double (map mood b) (averageMood d))
       (blend_double (map energy b) (averageEnergy d)) (length b)"
  using assms
  by (simp add: dailyPatternAt_double_def groupEntries_lookup orNumber_def Let_def
      blend_double_def)

lemma tie_bucket:
  "filter (\<lambda>e. getHours utcRuntime (timestamp e) = 9) tieEntries = tieEntries"
  by (simp add: tieEntries_def mkEntry_def utc_hours_9)

lemma tie_moods: "map mood tieEntries = [66, 66, 66, 66, 66, 65]" "tieEntries \<noteq> []"
  "length tieEntries = 6"
  by (simp_all add: tieEntries_def mkEntry_def numeral_eq_Suc)

section \<open>Lemmas: the prediction loop\<close>

lemma predictLoop_stop:
  "hoursAhead < i \<Longrightarrow> predictLoop rt dps wps le hoursAhead i k acc = acc"
  by (subst predictLoop.simps) simp

lemma predictLoop_step:
  "i \<le> hoursAhead \<Longrightarrow> predictLoop rt dps wps le hoursAhead i k acc =
     predictLoop rt dps wps le hoursAhead (i + 1) (snd (predictionAt rt dps wps le k i))
       (acc @ [fst (predictionAt rt dps wps le k i)])"
  by (subst predictLoop.simps) (simp add: case_prod_beta)

lemma predictLoop_length:
  "length (predictLoop rt dps wps le hoursAhead i k acc) = length acc + nat (hoursAhead + 1 - i)"
proof (induction rt dps wps le hoursAhead i k acc rule: predictLoop.induct)
  case (1 rt dps wps le hoursAhead i k acc)
  show ?case
  proof (cases "i \<le> hoursAhead")
    case True
    have "length (predictLoop rt dps wps le hoursAhead (i + 1)
        (snd (predictionAt rt dps wps le k i)) (acc @ [fst (predictionAt rt dps wps le k i)]))
      = length (acc @ [fst (predictionAt rt dps wps le k i)]) + nat (hoursAhead + 1 - (i + 1))"
      by (rule "1.IH" [OF True]) (simp_all add: prod_eq_iff)
    then show ?thesis using True by (simp add: predictLoop_step)
  next
    case False
    then show ?thesis by (simp add: predictLoop_stop)
  qed
qed

lemma predictLoop_all:
  "(\<And>k i. P (fst (predictionAt rt dps wps le k i))) \<Longrightarrow> list_all P acc
     \<Longrightarrow> list_all P (predictLoop rt dps wps le hoursAhead i k acc)"
proof (induction rt dps wps le hoursAhead i k acc rule: predictLoop.induct)
  case (1 rt dps wps le hoursAhead i k acc)
  show ?case
  proof (cases "i \<le> hoursAhead")
    case True
    have "list_all P (predictLoop rt dps wps le hoursAhead (i + 1)
        (snd (predictionAt rt dps wps le k i)) (acc @ [fst (predictionAt rt dps wps le k i)]))"
      using "1.prems"
      by (intro "1.IH" [OF True]) (simp_all add: prod_eq_iff)
    then show ?thesis using True by (simp add: predictLoop_step)
  next
    case False
    then show ?thesis using "1.prems" by (simp add: predictLoop_stop)
  qed
qed

lemma confidenceBeforeRounding_range:
  "0.6 \<le> confidenceBeforeRounding hp dp le" "confidenceBeforeRounding hp dp le \<le> 1"
proof -
  define a where "a = min (real (entryCount hp) / 10) 1"
  define b where "b = min (real (entryCount dp) / 15) 1"
  define c where "c = (if entryCount hp > 0 \<or> entryCount dp > 0 then max 0.6 ((a + b) / 2) else 0.6)"
  have ab: "a \<le> 1" "b \<le> 1" by (simp_all add: a_def b_def)
  have c: "0.6 \<le> c" "c \<le> 1" using ab by (auto simp: c_def)
  have eq: "confidenceBeforeRounding hp dp le = (if length le \<ge> 3 then min 1 (c + 0.1) else c)"
    by (simp add: confidenceBeforeRounding_def Let_def c_def a_def b_def)
  show "0.6 \<le> confidenceBeforeRounding hp dp le" using c by (simp add: eq min_def)
  show "confidenceBeforeRounding hp dp le \<le> 1" using c by (simp add: eq min_def)
qed

lemma predictionAt_shape:
  "\<exists>t x y hp dp. fst (predictionAt rt dps wps le k i) =
     mkPrediction t (Math_round (max 10 (min 90 x))) (Math_round (max 10 (min 90 y)))
       (Math_round (confidenceBeforeRounding hp dp le * 100) / 100)"
  unfolding predictionAt_def Let_def case_prod_beta fst_conv
  by (intro exI) (rule refl)

lemma predictionAt_bounds:
  "10 \<le> predictedMood (fst (predictionAt rt dps wps le k i))
   \<and> predictedMood (fst (predictionAt rt dps wps le k i)) \<le> 90
   \<and> 10 \<le> predictedEnergy (fst (predictionAt rt dps wps le k i))
   \<and> predictedEnergy (fst (predictionAt rt dps wps le k i)) \<le> 90
   \<and> 0.6 \<le> confidence (fst (predictionAt rt dps wps le k i))
   \<and> confidence (fst (predictionAt rt dps wps le k i)) \<le> 1
   \<and> Math_round (confidence (fst (predictionAt rt dps wps le k i)) * 100) / 100
       = confidence (fst (predictionAt rt dps wps le k i))"
proof -
  obtain t x y hp dp where s: "fst (predictionAt rt dps wps le k i) =
     mkPrediction t (Math_round (max 10 (min 90 x))) (Math_round (max 10 (min 90 y)))
       (Math_round (confidenceBeforeRounding hp dp le * 100) / 100)"
    using predictionAt_shape by blast
  have m: "10 \<le> Math_round (max 10 (min 90 z)) \<and> Math_round (max 10 (min 90 z)) \<le> 90" for z
    using Math_round_clamp [of 10 "max 10 (min 90 z)" 90] by simp
  show ?thesis
    unfolding s mkPrediction_def
    using m [of x] m [of y] rounded_confidence_range [OF confidenceBeforeRounding_range, of hp dp le]
    by simp
qed

lemma generatePredictions_eq:
  "generatePredictions rt st hoursAhead =
     Inr (predictLoop rt (getDailyPatterns rt st) (getWeeklyPatterns rt st)
            (drop (length (getEntries rt st) - 10) (getEntries rt st)) hoursAhead 1 0 [])"
  by (simp add: generatePredictions_def Let_def sliceFrom_last_ten)

section \<open>Claims about the pattern analysis\<close>

text \<open>
  C1. For every stored sample list, the empty one included, \<open>analyzeDailyPatterns\<close>
  returns 24 entries whose hours are 0, 1, ..., 23 in this order (each hour once,
  ascending), and \<open>analyzeWeeklyPatterns\<close> returns 7 entries whose days are
  0, 1, ..., 6 in this order.
\<close>

theorem analyze_complete:
  "length (fst (analyzeDailyPatterns rt st)) = 24
   \<and> map hour (fst (analyzeDailyPatterns rt st)) = [0..<24]
   \<and> length (fst (analyzeWeeklyPatterns rt st)) = 7
   \<and> map dayOfWeek (fst (analyzeWeeklyPatterns rt st)) = [0..<7]"
proof (intro conjI)
  show "length (fst (analyzeDailyPatterns rt st)) = 24" by (rule analyzeDaily_length)
  show "length (fst (analyzeWeeklyPatterns rt st)) = 7" by (rule analyzeWeekly_length)
  show "map hour (fst (analyzeDailyPatterns rt st)) = [0..<24]"
    unfolding analyzeDaily_fst
    by (rule nth_equalityI) (simp_all add: hour_dailyPatternAt del: upt_rec_numeral)
  show "map dayOfWeek (fst (analyzeWeeklyPatterns rt st)) = [0..<7]"
    unfolding analyzeWeekly_fst
    by (rule nth_equalityI) (simp_all add: dayOfWeek_weeklyPatternAt del: upt_rec_numeral)
qed

text \<open>
  C3 as stated fails: the code evaluates the blend in doubles, and at a rounding tie the
  value it returns is not the rounding of the exact blend. Six samples at hour 9 with
  the moods 66 (five times) and 65 have the raw mean 395/6 and the data weight 0.6; the
  exact blend with the baseline mood 60 is 63.5, which rounds to 64; in doubles the
  blend is 63.49999999999999 and \<open>analyzeDailyPatterns\<close> returns 63.
\<close>

theorem daily_blend_counterexample:
  "let bucket = filter (\<lambda>e. getHours utcRuntime (timestamp e) = 9)
                  (getEntries utcRuntime (storageOf tieEntries));
       n = real (length bucket);
       dataWeight = min (n / 10) 0.8;
       rawMean = sum_list (map mood bucket) / n
   in bucket \<noteq> []
      \<and> find (\<lambda>p. hour p = 9) DEFAULT_DAILY_PATTERNS = Some (mkDaily 9 60 60 0)
      \<and> real_of_int (round (rawMean * dataWeight + 60 * (1 - dataWeight))) = 64
      \<and> averageMood (fst (analyzeDailyPatterns_double utcRuntime (storageOf tieEntries)) ! 9) = 63"
proof -
  have "fst (analyzeDailyPatterns_double utcRuntime (storageOf tieEntries)) ! 9
      = dailyPatternAt_double (groupEntries (getHours utcRuntime) tieEntries) 9"
    by (simp add: analyzeDaily_double_nth getEntries_storageOf)
  also have "\<dots> = mkDaily 9 (blend_double (map mood tieEntries) 60)
      (blend_double (map energy tieEntries) 60) (length tieEntries)"
    using dailyPatternAt_double_bucket [OF tie_bucket tie_moods(2) find_daily_9]
    by (simp add: mkDaily_def)
  finally have r: "averageMood (fst (analyzeDailyPatterns_double utcRuntime (storageOf tieEntries)) ! 9)
      = 63"
    by (simp add: mkDaily_def tie_moods(1) tie_blend)
  have e: "real_of_int (round (sum_list [66, 66, 66, 66, 66, 65 :: real] / 6 * min (6 / 10) 0.8
      + 60 * (1 - min (6 / 10) 0.8))) = 64"
    by (simp add: round_def)
  show ?thesis
    unfolding Let_def getEntries_storageOf tie_bucket tie_moods(1)
    using r e tie_moods(2) find_daily_9 by (simp add: tie_moods(3))
qed

text \<open>
  C3, amended. When the bucket of an hour \<open>h < 24\<close> (the stored samples whose local
  hour is \<open>h\<close>) holds \<open>n \<ge> 1\<close> samples, of mood and energy between 0 and 100,
  the entry returned for \<open>h\<close> has the count \<open>n\<close> and the blended values
  \<open>Math.round (rawMean * dataWeight + baseline * (1 - dataWeight))\<close> with
  \<open>dataWeight = min (n / 10) 0.8\<close>, every operation evaluated in double arithmetic
  (\<open>blend_double\<close>), where \<open>baseline\<close> is the table's entry for \<open>h\<close>. In
  particular, 20 samples at hour 9 of mood and energy 80, against the table's hour-9
  entry of mood and energy 60, give the blended mood and energy 76.
\<close>

theorem daily_blend_double:
  "(h < 24 \<and> filter (\<lambda>e. getHours rt (timestamp e) = h) (getEntries rt st) = bucket \<and> bucket \<noteq> []
      \<and> (\<forall>e\<in>set bucket. 0 \<le> mood e \<and> mood e \<le> 100 \<and> 0 \<le> energy e \<and> energy e \<le> 100)
      \<longrightarrow> (\<exists>d. find (\<lambda>p. hour p = h) DEFAULT_DAILY_PATTERNS = Some d
            \<and> fst (analyzeDailyPatterns_double rt st) ! h =
                 mkDaily h (blend_double (map mood bucket) (averageMood d))
                   (blend_double (map energy bucket) (averageEnergy d)) (length bucket)))
   \<and> (length (getEntries rt st) = 20
        \<and> (\<forall>e\<in>set (getEntries rt st). getHours rt (timestamp e) = 9 \<and> mood e = 80 \<and> energy e = 80)
      \<longrightarrow> find (\<lambda>p. hour p = 9) DEFAULT_DAILY_PATTERNS = Some (mkDaily 9 60 60 0)
          \<and> averageMood (fst (analyzeDailyPatterns_double rt st) ! 9) = 76
          \<and> averageEnergy (fst (analyzeDailyPatterns_double rt st) ! 9) = 76
          \<and> entryCount (fst (analyzeDailyPatterns_double rt st) ! 9) = 20)"
proof (intro conjI impI)
  assume a: "h < 24 \<and> filter (\<lambda>e. getHours rt (timestamp e) = h) (getEntries rt st) = bucket
    \<and> bucket \<noteq> []
    \<and> (\<forall>e\<in>set bucket. 0 \<le> mood e \<and> mood e \<le> 100 \<and> 0 \<le> energy e \<and> energy e \<le> 100)"
  from a find_daily [of h] obtain d where
    d: "find (\<lambda>p. hour p = h) DEFAULT_DAILY_PATTERNS = Some d"
      "averageMood d \<noteq> 0" "averageEnergy d \<noteq> 0"
    by blast
  have "fst (analyzeDailyPatterns_double rt st) ! h =
      dailyPatternAt_double (groupEntries (getHours rt) (getEntries rt st)) h"
    using a by (simp add: analyzeDaily_double_nth)
  also have "\<dots> = mkDaily h (blend_double (map mood bucket) (averageMood d))
                   (blend_double (map energy bucket) (averageEnergy d)) (length bucket)"
    using a by (intro dailyPatternAt_double_bucket [OF _ _ d]) simp_all
  finally show "\<exists>d. find (\<lambda>p. hour p = h) DEFAULT_DAILY_PATTERNS = Some d
            \<and> fst (analyzeDailyPatterns_double rt st) ! h =
                 mkDaily h (blend_double (map mood bucket) (averageMood d))
                   (blend_double (map energy bucket) (averageEnergy d)) (length bucket)"
    using d(1) by blast
next
  assume s: "length (getEntries rt st) = 20
        \<and> (\<forall>e\<in>set (getEntries rt st). getHours rt (timestamp e) = 9 \<and> mood e = 80 \<and> energy e = 80)"
  let ?es = "getEntries rt st"
  have f: "filter (\<lambda>e. getHours rt (timestamp e) = 9) ?es = ?es"
    using s by (simp add: filter_id_conv)
  have ne: "?es \<noteq> []" using s by auto
  have bm: "blend_double (map mood ?es) 60 = 76" and be: "blend_double (map energy ?es) 60 = 76"
    using s by (simp_all add: scenario_blend)
  have "fst (analyzeDailyPatterns_double rt st) ! 9 =
      dailyPatternAt_double (groupEntries (getHours rt) ?es) 9"
    by (simp add: analyzeDaily_double_nth)
  also have "\<dots> = mkDaily 9 76 76 20"
    using dailyPatternAt_double_bucket [OF f ne find_daily_9] s bm be
    by (simp add: mkDaily_def)
  finally have r: "fst (analyzeDailyPatterns_double rt st) ! 9 = mkDaily 9 76 76 20" .
  show "find (\<lambda>p. hour p = 9) DEFAULT_DAILY_PATTERNS = Some (mkDaily 9 60 60 0)"
    by (rule find_daily_9)
  show "averageMood (fst (analyzeDailyPatterns_double rt st) ! 9) = 76"
    by (simp add: r mkDaily_def)
  show "averageEnergy (fst (analyzeDailyPatterns_double rt st) ! 9) = 76"
    by (simp add: r mkDaily_def)
  show "entryCount (fst (analyzeDailyPatterns_double rt st) ! 9) = 20"
    by (simp add: r mkDaily_def)
qed

theorem daily_blend_double_witness:
  "length (getEntries utcRuntime (storageOf scenarioEntries)) = 20
   \<and> list_all (\<lambda>e. getHours utcRuntime (timestamp e) = 9 \<and> mood e = 80 \<and> energy e = 80)
        (getEntries utcRuntime (storageOf scenarioEntries))
   \<and> fst (analyzeDailyPatterns_double utcRuntime (storageOf scenarioEntries)) ! 9
       = mkDaily 9 (blend_double (map mood scenarioEntries) 60)
           (blend_double (map energy scenarioEntries) 60) 20
   \<and> averageMood (fst (analyzeDailyPatterns_double utcRuntime (storageOf scenarioEntries)) ! 9) = 76
   \<and> averageEnergy (fst (analyzeDailyPatterns_double utcRuntime (storageOf scenarioEntries)) ! 9) = 76
   \<and> entryCount (fst (analyzeDailyPatterns_double utcRuntime (storageOf scenarioEntries)) ! 9) = 20"
proof -
  have h: "length (getEntries utcRuntime (storageOf scenarioEntries)) = 20
   \<and> (\<forall>e\<in>set (getEntries utcRuntime (storageOf scenarioEntries)).
        getHours utcRuntime (timestamp e) = 9 \<and> mood e = 80 \<and> energy e = 80)"
    by (simp add: getEntries_storageOf scenarioEntries_def mkEntry_def utc_hours_9)
  have g: "(9::nat) < 24
    \<and> filter (\<lambda>e. getHours utcRuntime (timestamp e) = 9)
        (getEntries utcRuntime (storageOf scenarioEntries)) = scenarioEntries
    \<and> scenarioEntries \<noteq> []
    \<and> (\<forall>e\<in>set scenarioEntries. 0 \<le> mood e \<and> mood e \<le> 100 \<and> 0 \<le> energy e \<and> energy e \<le> 100)"
    by (simp add: getEntries_storageOf scenarioEntries_def mkEntry_def utc_hours_9)
  from daily_blend_double [of 9 utcRuntime "storageOf scenarioEntries" scenarioEntries] h g
    find_daily_9
  show ?thesis by (auto simp: list_all_iff mkDaily_def scenarioEntries_def)
qed

text \<open>
  C5 as stated fails: the blended value is rounded, and the rounding can leave the
  interval. Ten samples at hour 16 with the moods 60 (nine times) and 61 have the raw
  mean 60.1; the baseline mood of hour 16 is 62; the blended mood is
  \<open>round (60.1 * 0.8 + 62 * 0.2) = round 60.48 = 60\<close>, below \<open>min 60.1 62\<close>.
\<close>

theorem blend_bound_counterexample:
  "\<not> (let bucket = filter (\<lambda>e. getHours utcRuntime (timestamp e) = 16)
                      (getEntries utcRuntime (storageOf skewedEntries));
          rawMood = sum_list (map mood bucket) / real (length bucket);
          baseline = 62;
          blended = averageMood (fst (analyzeDailyPatterns utcRuntime (storageOf skewedEntries)) ! 16)
      in length bucket \<ge> 1
           \<and> find (\<lambda>p. hour p = 16) DEFAULT_DAILY_PATTERNS = Some (mkDaily 16 baseline 60 0)
           \<and> min rawMood baseline \<le> blended \<and> blended \<le> max rawMood baseline)"
  by (simp add: getEntries_storageOf skewed_bucket skewed_sum skewed_result mkDaily_def Let_def)

text \<open>
  C5, amended. For every bucket with \<open>n \<ge> 1\<close> samples, of an hour below 24 or of a
  day below 7, the blended mood lies between the rounded \<open>min rawMean baseline\<close> and
  the rounded \<open>max rawMean baseline\<close>, and likewise the blended energy: the value
  before rounding is a convex combination of the raw mean and the baseline, and
  rounding is monotone.
\<close>

theorem blend_within_rounded_bounds:
  "(h < 24 \<and> filter (\<lambda>e. getHours rt (timestamp e) = h) (getEntries rt st) = bucket \<and> bucket \<noteq> []
      \<longrightarrow> (\<exists>d. find (\<lambda>p. hour p = h) DEFAULT_DAILY_PATTERNS = Some d
            \<and> (let rawMood = sum_list (map mood bucket) / real (length bucket);
                    rawEnergy = sum_list (map energy bucket) / real (length bucket);
                    p = fst (analyzeDailyPatterns rt st) ! h
                in real_of_int (round (min rawMood (averageMood d))) \<le> averageMood p
                   \<and> averageMood p \<le> real_of_int (round (max rawMood (averageMood d)))
                   \<and> real_of_int (round (min rawEnergy (averageEnergy d))) \<le> averageEnergy p
                   \<and> averageEnergy p \<le> real_of_int (round (max rawEnergy (averageEnergy d))))))
   \<and> (day < 7 \<and> filter (\<lambda>e. getDay rt (timestamp e) = day) (getEntries rt st) = wbucket
        \<and> wbucket \<noteq> []
      \<longrightarrow> (\<exists>d. find (\<lambda>p. dayOfWeek p = day) DEFAULT_WEEKLY_PATTERNS = Some d
            \<and> (let rawMood = sum_list (map mood wbucket) / real (length wbucket);
                    rawEnergy = sum_list (map energy wbucket) / real (length wbucket);
                    p = fst (analyzeWeeklyPatterns rt st) ! day
                in real_of_int (round (min rawMood (averageMood d))) \<le> averageMood p
                   \<and> averageMood p \<le> real_of_int (round (max rawMood (averageMood d)))
                   \<and> real_of_int (round (min rawEnergy (averageEnergy d))) \<le> averageEnergy p
                   \<and> averageEnergy p \<le> real_of_int (round (max rawEnergy (averageEnergy d))))))"
proof (intro conjI impI)
  assume a: "h < 24 \<and> filter (\<lambda>e. getHours rt (timestamp e) = h) (getEntries rt st) = bucket
    \<and> bucket \<noteq> []"
  from a find_daily [of h] obtain d where
    d: "find (\<lambda>p. hour p = h) DEFAULT_DAILY_PATTERNS = Some d"
      "averageMood d \<noteq> 0" "averageEnergy d \<noteq> 0"
    by blast
  define w where "w = min (real (length bucket) / 10) 0.8"
  define rm where "rm = sum_list (map mood bucket) / real (length bucket)"
  define re where "re = sum_list (map energy bucket) / real (length bucket)"
  define p where "p = fst (analyzeDailyPatterns rt st) ! h"
  have "p = dailyPatternAt (groupEntries (getHours rt) (getEntries rt st)) h"
    using a by (simp add: p_def analyzeDaily_nth)
  also have "\<dots> = mkDaily h (Math_round (rm * w + averageMood d * (1 - w)))
       (Math_round (re * w + averageEnergy d * (1 - w))) (length bucket)"
    unfolding w_def rm_def re_def
    using a by (intro dailyPatternAt_bucket [OF _ _ d]) simp_all
  finally have r: "averageMood p = Math_round (rm * w + averageMood d * (1 - w))"
    "averageEnergy p = Math_round (re * w + averageEnergy d * (1 - w))"
    by (simp_all add: mkDaily_def)
  have w: "0 \<le> w" "w \<le> 1" by (simp_all add: w_def)
  have "Math_round (min rm (averageMood d)) \<le> averageMood p
      \<and> averageMood p \<le> Math_round (max rm (averageMood d))
      \<and> Math_round (min re (averageEnergy d)) \<le> averageEnergy p
      \<and> averageEnergy p \<le> Math_round (max re (averageEnergy d))"
    unfolding r
    using blend_rounded_bounds [OF w, of rm "averageMood d"]
      blend_rounded_bounds [OF w, of re "averageEnergy d"] by blast
  then show "\<exists>d. find (\<lambda>p. hour p = h) DEFAULT_DAILY_PATTERNS = Some d
            \<and> (let rawMood = sum_list (map mood bucket) / real (length bucket);
                    rawEnergy = sum_list (map energy bucket) / real (length bucket);
                    p = fst (analyzeDailyPatterns rt st) ! h
                in real_of_int (round (min rawMood (averageMood d))) \<le> averageMood p
                   \<and> averageMood p \<le> real_of_int (round (max rawMood (averageMood d)))
                   \<and> real_of_int (round (min rawEnergy (averageEnergy d))) \<le> averageEnergy p
                   \<and> averageEnergy p \<le> real_of_int (round (max rawEnergy (averageEnergy d))))"
    unfolding Let_def Math_round_round rm_def re_def p_def
    using d(1) by blast
next
  assume a: "day < 7 \<and> filter (\<lambda>e. getDay rt (timestamp e) = day) (getEntries rt st) = wbucket
    \<and> wbucket \<noteq> []"
  from a find_weekly [of day] obtain d where
    d: "find (\<lambda>p. dayOfWeek p = day) DEFAULT_WEEKLY_PATTERNS = Some d"
      "averageMood d \<noteq> 0" "averageEnergy d \<noteq> 0"
    by blast
  define w where "w = min (real (length wbucket) / 15) 0.7"
  define rm where "rm = sum_list (map mood wbucket) / real (length wbucket)"
  define re where "re = sum_list (map energy wbucket) / real (length wbucket)"
  define p where "p = fst (analyzeWeeklyPatterns rt st) ! day"
  have "p = weeklyPatternAt (groupEntries (getDay rt) (getEntries rt st)) day"
    using a by (simp add: p_def analyzeWeekly_nth)
  also have "\<dots> = mkWeekly day (Math_round (rm * w + averageMood d * (1 - w)))
       (Math_round (re * w + averageEnergy d * (1 - w))) (length wbucket)"
    unfolding w_def rm_def re_def
    using a by (intro weeklyPatternAt_bucket [OF _ _ d]) simp_all
  finally have r: "averageMood p = Math_round (rm * w + averageMood d * (1 - w))"
    "averageEnergy p = Math_round (re * w + averageEnergy d * (1 - w))"
    by (simp_all add: mkWeekly_def)
  have w: "0 \<le> w" "w \<le> 1" by (simp_all add: w_def)
  have "Math_round (min rm (averageMood d)) \<le> averageMood p
      \<and> averageMood p \<le> Math_round (max rm (averageMood d))
      \<and> Math_round (min re (averageEnergy d)) \<le> averageEnergy p
      \<and> averageEnergy p \<le> Math_round (max re (averageEnergy d))"
    unfolding r
    using blend_rounded_bounds [OF w, of rm "averageMood d"]
      blend_rounded_bounds [OF w, of re "averageEnergy d"] by blast
  then show "\<exists>d. find (\<lambda>p. dayOfWeek p = day) DEFAULT_WEEKLY_PATTERNS = Some d
            \<and> (let rawMood = sum_list (map mood wbucket) / real (length wbucket);
                    rawEnergy = sum_list (map energy wbucket) / real (length wbucket);
                    p = fst (analyzeWeeklyPatterns rt st) ! day
                in real_of_int (round (min rawMood (averageMood d))) \<le> averageMood p
                   \<and> averageMood p \<le> real_of_int (round (max rawMood (averageMood d)))
                   \<and> real_of_int (round (min rawEnergy (averageEnergy d))) \<le> averageEnergy p
                   \<and> averageEnergy p \<le> real_of_int (round (max rawEnergy (averageEnergy d))))"
    unfolding Let_def Math_round_round rm_def re_def p_def
    using d(1) by blast
qed

theorem blend_within_rounded_bounds_witness:
  "(16::nat) < 24
   \<and> filter (\<lambda>e. getHours utcRuntime (timestamp e) = 16) (getEntries utcRuntime (storageOf skewedEntries))
       = skewedEntries
   \<and> (4::nat) < 7
   \<and> filter (\<lambda>e. getDay utcRuntime (timestamp e) = 4) (getEntries utcRuntime (storageOf skewedEntries))
       = skewedEntries
   \<and> skewedEntries \<noteq> []
   \<and> real_of_int (round (min (601 / 10) (62::real)))
       \<le> averageMood (fst (analyzeDailyPatterns utcRuntime (storageOf skewedEntries)) ! 16)
   \<and> averageMood (fst (analyzeDailyPatterns utcRuntime (storageOf skewedEntries)) ! 16)
       \<le> real_of_int (round (max (601 / 10) (62::real)))
   \<and> real_of_int (round (min (601 / 10) (70::real)))
       \<le> averageMood (fst (analyzeWeeklyPatterns utcRuntime (storageOf skewedEntries)) ! 4)
   \<and> averageMood (fst (analyzeWeeklyPatterns utcRuntime (storageOf skewedEntries)) ! 4)
       \<le> real_of_int (round (max (601 / 10) (70::real)))"
proof -
  have d: "filter (\<lambda>e. getHours utcRuntime (timestamp e) = 16)
      (getEntries utcRuntime (storageOf skewedEntries)) = skewedEntries"
    by (simp add: getEntries_storageOf skewed_bucket)
  have w: "filter (\<lambda>e. getDay utcRuntime (timestamp e) = 4)
      (getEntries utcRuntime (storageOf skewedEntries)) = skewedEntries"
    by (simp add: getEntries_storageOf skewedEntries_def mkEntry_def utc_day_16)
  have f: "find (\<lambda>p. dayOfWeek p = 4) DEFAULT_WEEKLY_PATTERNS = Some (mkWeekly 4 70 70 0)"
    by (simp add: DEFAULT_WEEKLY_PATTERNS_def mkWeekly_def)
  from blend_within_rounded_bounds
    [of 16 utcRuntime "storageOf skewedEntries" skewedEntries 4 skewedEntries]
    d w skewed_sum(4) find_daily_16 f
  show ?thesis
    by (simp add: Let_def skewed_sum mkDaily_def mkWeekly_def)
qed

text \<open>
  C6 as stated fails: each analysis ends with a write of its result to the store. On the
  store with no key written (and no failing write), the store after \<open>analyzeDailyPatterns\<close> is a different
  one (it holds the daily patterns), and so is the store after
  \<open>analyzeWeeklyPatterns\<close>.
\<close>

theorem analyze_writes_counterexample:
  "snd (analyzeDailyPatterns utcRuntime emptyStorage) \<noteq> emptyStorage
   \<and> snd (analyzeWeeklyPatterns utcRuntime emptyStorage) \<noteq> emptyStorage"
proof -
  have "DAILY_PATTERNS (snd (analyzeDailyPatterns utcRuntime emptyStorage))
      \<noteq> DAILY_PATTERNS emptyStorage"
    by (simp add: analyzeDailyPatterns_def saveDailyPatterns_def Let_def emptyStorage_def
        utcRuntime_def)
  moreover have "WEEKLY_PATTERNS (snd (analyzeWeeklyPatterns utcRuntime emptyStorage))
      \<noteq> WEEKLY_PATTERNS emptyStorage"
    by (simp add: analyzeWeeklyPatterns_def saveWeeklyPatterns_def Let_def emptyStorage_def
        utcRuntime_def)
  ultimately show ?thesis by metis
qed

text \<open>
  C6, amended. \<open>analyzeDailyPatterns\<close> changes the store in one place at most: it
  overwrites the daily patterns with the list it returns (the store stays as it was when
  that write throws), and leaves the stored entries and the stored weekly patterns as
  they were. \<open>analyzeWeeklyPatterns\<close> overwrites the weekly patterns with the list
  it returns and leaves the stored entries and the stored daily patterns as they were.
\<close>

theorem analyze_writes_own_key:
  "snd (analyzeDailyPatterns rt st) =
     (if setItemThrows rt STORAGE_KEYS_DAILY_PATTERNS then st
      else st\<lparr>DAILY_PATTERNS := Some (fst (analyzeDailyPatterns rt st))\<rparr>)
   \<and> snd (analyzeWeeklyPatterns rt st) =
     (if setItemThrows rt STORAGE_KEYS_WEEKLY_PATTERNS then st
      else st\<lparr>WEEKLY_PATTERNS := Some (fst (analyzeWeeklyPatterns rt st))\<rparr>)
   \<and> ENTRIES (snd (analyzeDailyPatterns rt st)) = ENTRIES st
   \<and> WEEKLY_PATTERNS (snd (analyzeDailyPatterns rt st)) = WEEKLY_PATTERNS st
   \<and> ENTRIES (snd (analyzeWeeklyPatterns rt st)) = ENTRIES st
   \<and> DAILY_PATTERNS (snd (analyzeWeeklyPatterns rt st)) = DAILY_PATTERNS st"
  by (simp add: analyzeDailyPatterns_def analyzeWeeklyPatterns_def saveDailyPatterns_def
      saveWeeklyPatterns_def Let_def)

text \<open>
  C8. When the stored sample list is empty, \<open>analyzeDailyPatterns\<close> returns, for
  every hour below 24, the baseline table's entry of that hour, and
  \<open>analyzeWeeklyPatterns\<close> returns, for every day below 7, the baseline table's entry
  of that day; every returned entry has the count 0.
\<close>

theorem empty_samples_baseline:
  assumes "getEntries rt st = []"
  shows "length (fst (analyzeDailyPatterns rt st)) = 24
    \<and> length (fst (analyzeWeeklyPatterns rt st)) = 7
    \<and> (\<forall>h<24. find (\<lambda>p. hour p = h) DEFAULT_DAILY_PATTERNS
                 = Some (fst (analyzeDailyPatterns rt st) ! h)
             \<and> entryCount (fst (analyzeDailyPatterns rt st) ! h) = 0)
    \<and> (\<forall>day<7. find (\<lambda>p. dayOfWeek p = day) DEFAULT_WEEKLY_PATTERNS
                 = Some (fst (analyzeWeeklyPatterns rt st) ! day)
             \<and> entryCount (fst (analyzeWeeklyPatterns rt st) ! day) = 0)"
proof (intro conjI allI impI)
  show "length (fst (analyzeDailyPatterns rt st)) = 24" by (rule analyzeDaily_length)
  show "length (fst (analyzeWeeklyPatterns rt st)) = 7" by (rule analyzeWeekly_length)
next
  fix h :: nat assume h: "h < 24"
  from find_daily [OF h] obtain d where
    d: "find (\<lambda>p. hour p = h) DEFAULT_DAILY_PATTERNS = Some d" "entryCount d = 0" by blast
  have r: "fst (analyzeDailyPatterns rt st) ! h = d"
    using h assms dailyPatternAt_empty [OF _ d(1), of "getHours rt" "[]"]
    by (simp add: analyzeDaily_nth)
  show "find (\<lambda>p. hour p = h) DEFAULT_DAILY_PATTERNS
                 = Some (fst (analyzeDailyPatterns rt st) ! h)"
    using d r by simp
  show "entryCount (fst (analyzeDailyPatterns rt st) ! h) = 0"
    using d r by simp
next
  fix day :: nat assume h: "day < 7"
  from find_weekly [OF h] obtain d where
    d: "find (\<lambda>p. dayOfWeek p = day) DEFAULT_WEEKLY_PATTERNS = Some d" "entryCount d = 0"
    by blast
  have r: "fst (analyzeWeeklyPatterns rt st) ! day = d"
    using h assms weeklyPatternAt_empty [OF _ d(1), of "getDay rt" "[]"]
    by (simp add: analyzeWeekly_nth)
  show "find (\<lambda>p. dayOfWeek p = day) DEFAULT_WEEKLY_PATTERNS
                 = Some (fst (analyzeWeeklyPatterns rt st) ! day)"
    using d r by simp
  show "entryCount (fst (analyzeWeeklyPatterns rt st) ! day) = 0"
    using d r by simp
qed

theorem empty_samples_baseline_witness:
  "getEntries utcRuntime emptyStorage = []
   \<and> fst (analyzeDailyPatterns utcRuntime emptyStorage) ! 9 = mkDaily 9 60 60 0
   \<and> fst (analyzeWeeklyPatterns utcRuntime emptyStorage) ! 6 = mkWeekly 6 75 65 0
   \<and> length (fst (analyzeDailyPatterns utcRuntime emptyStorage)) = 24
   \<and> length (fst (analyzeWeeklyPatterns utcRuntime emptyStorage)) = 7"
proof -
  have e: "getEntries utcRuntime emptyStorage = []"
    by (simp add: getEntries_def emptyStorage_def)
  have "find (\<lambda>p. dayOfWeek p = 6) DEFAULT_WEEKLY_PATTERNS = Some (mkWeekly 6 75 65 0)"
    by (simp add: DEFAULT_WEEKLY_PATTERNS_def mkWeekly_def)
  with empty_samples_baseline [OF e] find_daily_9 e show ?thesis
    by auto
qed

section \<open>Claims about the forecast\<close>

text \<open>
  C2 as stated fails: the source has no check of the horizon. With \<open>hoursAhead = 0\<close>
  the loop \<open>for (i = 1; i <= hoursAhead; i++)\<close> does not run and the call returns the
  empty list; it does not fail with \<open>InvalidRange\<close>.
\<close>

theorem nonpositive_horizon_counterexample:
  "generatePredictions utcRuntime emptyStorage 0 = Inr []
   \<and> generatePredictions utcRuntime emptyStorage 0 \<noteq> Inl InvalidRange"
  by (simp add: generatePredictions_eq predictLoop_stop)

text \<open>
  C2, amended. For every call of \<open>generatePredictions\<close> with \<open>hoursAhead \<le> 0\<close>,
  the call succeeds and returns the empty list of predictions.
\<close>

theorem nonpositive_horizon_empty:
  "hoursAhead \<le> 0 \<Longrightarrow> generatePredictions rt st hoursAhead = Inr []"
  by (simp add: generatePredictions_eq predictLoop_stop)

theorem nonpositive_horizon_empty_witness:
  "(- 3 :: int) \<le> 0 \<and> generatePredictions utcRuntime (storageOf scenarioEntries) (- 3) = Inr []"
  using nonpositive_horizon_empty [of "- 3" utcRuntime "storageOf scenarioEntries"] by simp

text \<open>
  C7. For every store (any patterns, any samples), every runtime (any clock, any random
  draws) and every \<open>hoursAhead \<ge> 1\<close>, \<open>generatePredictions\<close> returns
  \<open>hoursAhead\<close> points, and every point has its predicted mood and its predicted
  energy in \<open>[10, 90]\<close> and a confidence in \<open>[0, 1]\<close> that is rounded to two
  decimals (rounding it to two decimals again gives the same number).
\<close>

theorem forecast_bounds:
  "1 \<le> hoursAhead \<Longrightarrow>
     \<exists>ps. generatePredictions rt st hoursAhead = Inr ps \<and> length ps = nat hoursAhead
       \<and> (\<forall>p\<in>set ps. 10 \<le> predictedMood p \<and> predictedMood p \<le> 90
             \<and> 10 \<le> predictedEnergy p \<and> predictedEnergy p \<le> 90
             \<and> 0 \<le> confidence p \<and> confidence p \<le> 1
             \<and> real_of_int (round (confidence p * 100)) / 100 = confidence p)"
proof -
  let ?P = "\<lambda>p. 10 \<le> predictedMood p \<and> predictedMood p \<le> 90
             \<and> 10 \<le> predictedEnergy p \<and> predictedEnergy p \<le> 90
             \<and> 0 \<le> confidence p \<and> confidence p \<le> 1
             \<and> real_of_int (round (confidence p * 100)) / 100 = confidence p"
  let ?ps = "predictLoop rt (getDailyPatterns rt st) (getWeeklyPatterns rt st)
            (drop (length (getEntries rt st) - 10) (getEntries rt st)) hoursAhead 1 0 []"
  have "?P (fst (predictionAt rt dps wps le k i))" for dps wps le k i
    using predictionAt_bounds [of rt dps wps le k i] by (simp add: Math_round_round)
  then have "list_all ?P ?ps"
    by (intro predictLoop_all) simp_all
  then have "\<forall>p\<in>set ?ps. ?P p" by (simp add: list_all_iff)
  moreover have "length ?ps = nat hoursAhead" by (simp add: predictLoop_length)
  ultimately show ?thesis unfolding generatePredictions_eq by blast
qed

theorem forecast_bounds_witness:
  "(1::int) \<le> 12
   \<and> (\<exists>ps. generatePredictions utcRuntime (storageOf scenarioEntries) 12 = Inr ps
         \<and> length ps = 12
         \<and> list_all (\<lambda>p. 10 \<le> predictedMood p \<and> predictedMood p \<le> 90
             \<and> 10 \<le> predictedEnergy p \<and> predictedEnergy p \<le> 90
             \<and> 0 \<le> confidence p \<and> confidence p \<le> 1) ps)"
  using forecast_bounds [of 12 utcRuntime "storageOf scenarioEntries"]
  by (auto simp: list_all_iff)

text \<open>
  C9. The confidence of a step before rounding (\<open>confidenceBeforeRounding\<close>, whatever
  the two patterns and the recent entries are) lies in \<open>[0.6, 1]\<close>, and for every
  input the confidence reported by every point that \<open>generatePredictions\<close> returns
  lies in \<open>[0.6, 1]\<close>.
\<close>

theorem confidence_at_least_base:
  "0.6 \<le> confidenceBeforeRounding hourPattern dayPattern lastEntries
   \<and> confidenceBeforeRounding hourPattern dayPattern lastEntries \<le> 1
   \<and> (\<exists>ps. generatePredictions rt st hoursAhead = Inr ps
         \<and> (\<forall>p\<in>set ps. 0.6 \<le> confidence p \<and> confidence p \<le> 1))"
proof -
  let ?P = "\<lambda>p. 0.6 \<le> confidence p \<and> confidence p \<le> 1"
  let ?ps = "predictLoop rt (getDailyPatterns rt st) (getWeeklyPatterns rt st)
            (drop (length (getEntries rt st) - 10) (getEntries rt st)) hoursAhead 1 0 []"
  have "?P (fst (predictionAt rt dps wps le k i))" for dps wps le k i
    using predictionAt_bounds [of rt dps wps le k i] by simp
  then have "list_all ?P ?ps"
    by (intro predictLoop_all) simp_all
  then have "\<forall>p\<in>set ?ps. ?P p" by (simp add: list_all_iff)
  then show ?thesis
    unfolding generatePredictions_eq
    using confidenceBeforeRounding_range [of hourPattern dayPattern lastEntries] by blast
qed

theorem confidence_at_least_base_witness:
  "\<exists>ps. generatePredictions utcRuntime (storageOf scenarioEntries) 12 = Inr ps
     \<and> length ps = 12 \<and> list_all (\<lambda>p. 0.6 \<le> confidence p \<and> confidence p \<le> 1) ps"
  using confidence_at_least_base [of _ _ _ utcRuntime "storageOf scenarioEntries" 12]
  by (auto simp: list_all_iff generatePredictions_eq predictLoop_length)

text \<open>
  C10. \<open>generatePredictions\<close> reads the sample history through its last ten entries
  only: two stores that differ in their entry lists only, the two lists having the same
  last ten entries in the same order, give the same predictions under the same runtime
  (clock and random draws) and the same horizon.
\<close>

theorem predictions_depend_on_last_ten:
  "drop (length a - 10) a = drop (length b - 10) b \<Longrightarrow>
     generatePredictions rt (st\<lparr>ENTRIES := Some a\<rparr>) hoursAhead
       = generatePredictions rt (st\<lparr>ENTRIES := Some b\<rparr>) hoursAhead"
  by (simp add: generatePredictions_eq getEntries_def getDailyPatterns_def getWeeklyPatterns_def)

theorem predictions_depend_on_last_ten_witness:
  "drop (length headA - 10) headA = drop (length headB - 10) headB
   \<and> headA \<noteq> headB
   \<and> generatePredictions utcRuntime (emptyStorage\<lparr>ENTRIES := Some headA\<rparr>) 12
       = generatePredictions utcRuntime (emptyStorage\<lparr>ENTRIES := Some headB\<rparr>) 12"
proof -
  have h: "drop (length headA - 10) headA = drop (length headB - 10) headB"
    by (simp add: headA_def headB_def)
  have "headA \<noteq> headB" by (simp add: headA_def headB_def mkEntry_def)
  with h predictions_depend_on_last_ten [OF h, of utcRuntime emptyStorage 12]
  show ?thesis by simp
qed

section \<open>Claims about the energy dips\<close>

text \<open>
  C4 as stated fails: the filter keeps a point whose predicted energy is strictly below
  its threshold. A point of energy 30 and confidence 0.9 is at its threshold 30 and is
  not returned.
\<close>

theorem dips_counterexample:
  "predictedEnergy (mkPrediction 3600000 50 30 0.9) \<le> threshold (mkPrediction 3600000 50 30 0.9)
   \<and> mkPrediction 3600000 50 30 0.9 \<notin> set (dips [mkPrediction 3600000 50 30 0.9])"
  by (simp add: dips_def threshold_def mkPrediction_def)

text \<open>
  C4, amended. For every list of prediction points, \<open>dips\<close> returns exactly the points
  whose predicted energy is strictly below their threshold (30 when the confidence
  exceeds 0.7, otherwise 35), in the order of the input; a point of energy 25 and
  confidence 0.9 is a dip, a point of energy 32 and confidence 0.5 is a dip, and a point
  of energy 40 and confidence 0.9 is not; \<open>findEnergyDips\<close> returns the time and the
  energy of these points of the 12-hour forecast.
\<close>

theorem dips_strictly_below:
  "dips ps = filter (\<lambda>p. predictedEnergy p < (if confidence p > 0.7 then 30 else 35)) ps
   \<and> subseq (dips ps) ps
   \<and> dips [mkPrediction t1 m1 25 0.9] = [mkPrediction t1 m1 25 0.9]
   \<and> dips [mkPrediction t2 m2 32 0.5] = [mkPrediction t2 m2 32 0.5]
   \<and> dips [mkPrediction t3 m3 40 0.9] = []
   \<and> (\<exists>predictions. generatePredictions rt st 12 = Inr predictions
        \<and> findEnergyDips rt st =
            Inr (map (\<lambda>p. (toLocaleTimeString rt (timestamp p), predictedEnergy p))
                   (filter (\<lambda>p. predictedEnergy p < (if confidence p > 0.7 then 30 else 35))
                      predictions)))"
proof (intro conjI)
  show d: "dips ps = filter (\<lambda>p. predictedEnergy p < (if confidence p > 0.7 then 30 else 35)) ps"
    for ps
    by (simp add: dips_def threshold_def)
  show "subseq (dips ps) ps" by (simp add: dips_def)
  show "dips [mkPrediction t1 m1 25 0.9] = [mkPrediction t1 m1 25 0.9]"
    by (simp add: dips_def threshold_def mkPrediction_def)
  show "dips [mkPrediction t2 m2 32 0.5] = [mkPrediction t2 m2 32 0.5]"
    by (simp add: dips_def threshold_def mkPrediction_def)
  show "dips [mkPrediction t3 m3 40 0.9] = []"
    by (simp add: dips_def threshold_def mkPrediction_def)
  show "\<exists>predictions. generatePredictions rt st 12 = Inr predictions
        \<and> findEnergyDips rt st =
            Inr (map (\<lambda>p. (toLocaleTimeString rt (timestamp p), predictedEnergy p))
                   (filter (\<lambda>p. predictedEnergy p < (if confidence p > 0.7 then 30 else 35))
                      predictions))"
    by (simp add: findEnergyDips_def generatePredictions_eq d)
qed

end
